theory Spec2Isabelle
  imports Main "HOL-Library.Sublist" "HOL-Library.AList"
begin

section \<open>JavaScript values\<close>

text \<open>
  The server is TypeScript: API responses, parsed YAML documents and request bodies are
  plain JavaScript values. An object is the list of its own enumerable properties in
  the order \<^verbatim>\<open>Object.entries\<close> yields them (for names that are not array indices
  this is the order in which the properties were created). Numbers are integers here;
  floating point, \<^verbatim>\<open>NaN\<close>, \<^verbatim>\<open>Date\<close> objects and functions do not occur in the
  model.
\<close>

datatype jsvalue =
    JUndefined
  | JNull
  | JBool bool
  | JNumber int
  | JString string
  | JArray "jsvalue list"
  | JObject "(string \<times> jsvalue) list"

text \<open>\<^verbatim>\<open>if (v)\<close>, \<^verbatim>\<open>!v\<close>, \<^verbatim>\<open>a && b\<close>, \<^verbatim>\<open>a || b\<close> test the truthiness of a value.\<close>

fun truthy :: "jsvalue \<Rightarrow> bool" where
  "truthy JUndefined = False"
| "truthy JNull = False"
| "truthy (JBool b) = b"
| "truthy (JNumber n) = (n \<noteq> 0)"
| "truthy (JString s) = (s \<noteq> [])"
| "truthy (JArray xs) = True"
| "truthy (JObject kvs) = True"

text \<open>
  Decimal rendering of an integer. The language renders a whole number of magnitude
  below \<^verbatim>\<open>1e21\<close> this way; from \<^verbatim>\<open>1e21\<close> on it writes an exponent
  (\<^verbatim>\<open>1e+21\<close>).
\<close>

fun showNat :: "nat \<Rightarrow> string" where
  "showNat n =
     (if n < 10 then [''0123456789'' ! n]
      else showNat (n div 10) @ [''0123456789'' ! (n mod 10)])"

declare showNat.simps [simp del]

definition showInt :: "int \<Rightarrow> string" where
  "showInt i = (if i < 0 then CHR ''-'' # showNat (nat (- i)) else showNat (nat i))"

definition padStart :: "nat \<Rightarrow> string \<Rightarrow> string" where
  "padStart w s = replicate (w - length s) CHR ''0'' @ s"

subsection \<open>\<^verbatim>\<open>Date.prototype.toISOString\<close>\<close>

text \<open>
  A point in time is its time value: milliseconds since 1970-01-01T00:00:00Z. The date
  is rendered in UTC as \<^verbatim>\<open>YYYY-MM-DDTHH:mm:ss.sssZ\<close>; a year outside 0..9999 is
  written with a sign and six digits. The civil date of a day number (days since
  1970-01-01) is computed by era arithmetic on the proleptic Gregorian calendar: the
  day number is shifted to count from 0000-03-01, an era is 400 years = 146097 days,
  and within an era the year starts in March. Months are numbered from 1.
\<close>

definition dayOfEra :: "int \<Rightarrow> int" where
  "dayOfEra day = (day + 719468) mod 146097"

definition yearOfEra :: "int \<Rightarrow> int" where
  "yearOfEra doe = (doe - doe div 1460 + doe div 36524 - doe div 146096) div 365"

definition dayOfYear :: "int \<Rightarrow> int" where
  "dayOfYear doe = doe - (365 * yearOfEra doe + yearOfEra doe div 4 - yearOfEra doe div 100)"

definition monthIndex :: "int \<Rightarrow> int" where
  "monthIndex doy = (5 * doy + 2) div 153"

definition monthFromDay :: "int \<Rightarrow> int" where
  "monthFromDay day =
     (if monthIndex (dayOfYear (dayOfEra day)) < 10
      then monthIndex (dayOfYear (dayOfEra day)) + 3
      else monthIndex (dayOfYear (dayOfEra day)) - 9)"

definition dateFromDay :: "int \<Rightarrow> int" where
  "dateFromDay day =
     dayOfYear (dayOfEra day) - (153 * monthIndex (dayOfYear (dayOfEra day)) + 2) div 5 + 1"

definition yearFromDay :: "int \<Rightarrow> int" where
  "yearFromDay day =
     yearOfEra (dayOfEra day) + (day + 719468) div 146097 * 400
       + (if monthFromDay day \<le> 2 then 1 else 0)"

definition showYear :: "int \<Rightarrow> string" where
  "showYear y =
     (if 0 \<le> y \<and> y \<le> 9999 then padStart 4 (showNat (nat y))
      else (if y < 0 then CHR ''-'' else CHR ''+'') # padStart 6 (showNat (nat \<bar>y\<bar>)))"

definition yearFromTime :: "int \<Rightarrow> int" where
  "yearFromTime t = yearFromDay (t div 86400000)"

definition monthFromTime :: "int \<Rightarrow> int" where
  "monthFromTime t = monthFromDay (t div 86400000)"

definition dateFromTime :: "int \<Rightarrow> int" where
  "dateFromTime t = dateFromDay (t div 86400000)"

definition hourFromTime :: "int \<Rightarrow> int" where
  "hourFromTime t = t mod 86400000 div 3600000"

definition minFromTime :: "int \<Rightarrow> int" where
  "minFromTime t = t mod 86400000 div 60000 mod 60"

definition secFromTime :: "int \<Rightarrow> int" where
  "secFromTime t = t mod 86400000 div 1000 mod 60"

definition msFromTime :: "int \<Rightarrow> int" where
  "msFromTime t = t mod 1000"

definition toISOString :: "int \<Rightarrow> string" where
  "toISOString t =
     showYear (yearFromTime t)
       @ ''-'' @ padStart 2 (showNat (nat (monthFromTime t)))
       @ ''-'' @ padStart 2 (showNat (nat (dateFromTime t)))
       @ ''T'' @ padStart 2 (showNat (nat (hourFromTime t)))
       @ '':'' @ padStart 2 (showNat (nat (minFromTime t)))
       @ '':'' @ padStart 2 (showNat (nat (secFromTime t)))
       @ ''.'' @ padStart 3 (showNat (nat (msFromTime t))) @ ''Z''"

section \<open>The error taxonomy\<close>

text \<open>
  Modelled from the spec: the error classes of \<^verbatim>\<open>common/errors\<close>, which
  \<^verbatim>\<open>src/index.ts\<close> imports, are not part of the sources at hand. The kinds are the nine
  of section 3 of the specification.
\<close>

datatype ErrorKind =
    Validation
  | ResourceNotFound
  | Authentication
  | Permission
  | RateLimit
  | Conflict
  | Timeout
  | Network
  | Generic

text \<open>
  Modelled from the spec: one class per kind, with the fields that
  \<^verbatim>\<open>formatGitHubError\<close> reads (\<^verbatim>\<open>message\<close>, \<^verbatim>\<open>response\<close>, \<^verbatim>\<open>resetAt\<close>,
  \<^verbatim>\<open>timeoutMs\<close>, \<^verbatim>\<open>errorCode\<close>) and section 3 of the specification lists. The base
  class \<^verbatim>\<open>GitHubError\<close> is the last constructor; an error of no subclass is of kind
  \<open>Generic\<close>. \<^verbatim>\<open>resetAt\<close> is a point in time (a valid \<^verbatim>\<open>Date\<close>), given by its time
  value.
\<close>

datatype GitHubError =
    GitHubValidationError (message: string) (response: jsvalue)
  | GitHubResourceNotFoundError (message: string)
  | GitHubAuthenticationError (message: string)
  | GitHubPermissionError (message: string)
  | GitHubRateLimitError (message: string) (resetAt: int)
  | GitHubConflictError (message: string)
  | GitHubTimeoutError (message: string) (timeoutMs: int)
  | GitHubNetworkError (message: string) (errorCode: string)
  | GitHubErrorBase (message: string) (response: jsvalue)

fun kindOf :: "GitHubError \<Rightarrow> ErrorKind" where
  "kindOf (GitHubValidationError m r) = Validation"
| "kindOf (GitHubResourceNotFoundError m) = ResourceNotFound"
| "kindOf (GitHubAuthenticationError m) = Authentication"
| "kindOf (GitHubPermissionError m) = Permission"
| "kindOf (GitHubRateLimitError m t) = RateLimit"
| "kindOf (GitHubConflictError m) = Conflict"
| "kindOf (GitHubTimeoutError m t) = Timeout"
| "kindOf (GitHubNetworkError m c) = Network"
| "kindOf (GitHubErrorBase m r) = Generic"

subsection \<open>\<^verbatim>\<open>formatGitHubError\<close> (\<^verbatim>\<open>src/index.ts\<close>)\<close>

text \<open>
  The function starts from the message \<^verbatim>\<open>`GitHub API Error: ${error.message}`\<close> and
  replaces it in the first branch of the \<^verbatim>\<open>instanceof\<close> chain that applies; an error
  of no subclass keeps it. \<^verbatim>\<open>JSON.stringify\<close> is the parameter \<open>stringify\<close>.
\<close>

definition newline :: string where
  "newline = [CHR 0x0A]"

fun formatGitHubError :: "(jsvalue \<Rightarrow> string) \<Rightarrow> GitHubError \<Rightarrow> string" where
  "formatGitHubError stringify (GitHubValidationError msg resp) =
     ''Validation Error: '' @ msg
       @ (if truthy resp then newline @ ''Details: '' @ stringify resp else [])"
| "formatGitHubError stringify (GitHubResourceNotFoundError msg) = ''Not Found: '' @ msg"
| "formatGitHubError stringify (GitHubAuthenticationError msg) =
     ''Authentication Failed: '' @ msg"
| "formatGitHubError stringify (GitHubPermissionError msg) = ''Permission Denied: '' @ msg"
| "formatGitHubError stringify (GitHubRateLimitError msg t) =
     ''Rate Limit Exceeded: '' @ msg @ newline @ ''Resets at: '' @ toISOString t"
| "formatGitHubError stringify (GitHubConflictError msg) = ''Conflict: '' @ msg"
| "formatGitHubError stringify (GitHubTimeoutError msg ms) =
     ''Timeout: '' @ msg @ newline @ ''Timeout setting: '' @ showInt ms @ ''ms''"
| "formatGitHubError stringify (GitHubNetworkError msg code) =
     ''Network Error: '' @ msg @ newline @ ''Error code: '' @ code"
| "formatGitHubError stringify (GitHubErrorBase msg resp) = ''GitHub API Error: '' @ msg"

text \<open>The prefix each kind is announced with.\<close>

fun kindPrefix :: "ErrorKind \<Rightarrow> string" where
  "kindPrefix Validation = ''Validation Error: ''"
| "kindPrefix ResourceNotFound = ''Not Found: ''"
| "kindPrefix Authentication = ''Authentication Failed: ''"
| "kindPrefix Permission = ''Permission Denied: ''"
| "kindPrefix RateLimit = ''Rate Limit Exceeded: ''"
| "kindPrefix Conflict = ''Conflict: ''"
| "kindPrefix Timeout = ''Timeout: ''"
| "kindPrefix Network = ''Network Error: ''"
| "kindPrefix Generic = ''GitHub API Error: ''"

subsection \<open>The error classifier\<close>

text \<open>
  Modelled from the spec: the classifier of \<^verbatim>\<open>common/errors\<close> is not part of the
  sources at hand. Section 4.1 of the
  specification describes a failed call as
  \<^verbatim>\<open>(statusCode, headers, body, transportFailure, elapsedExceededDeadline)\<close> and gives
  the decision policy in priority order, first match wins: transport failure, then
  deadline, then the status code; a call that fits none of them is \<open>Generic\<close>. The
  specification does not name the header that carries the reset time, so its name is the
  parameter \<open>resetHeader\<close>.
\<close>

record failedCall =
  statusCode :: "int option"
  responseHeaders :: "(string \<times> string) list"
  responseBody :: jsvalue
  transportFailure :: bool
  elapsedExceededDeadline :: bool

text \<open>
  Modelled from the spec: "response headers indicate a rate-limit reset time" when the
  reset header is among them.
\<close>

definition indicatesRateLimitReset :: "string \<Rightarrow> (string \<times> string) list \<Rightarrow> bool" where
  "indicatesRateLimitReset resetHeader hs = (map_of hs resetHeader \<noteq> None)"

text \<open>
  Modelled from the spec: the decision policy of section 4.1, in its priority order.
\<close>

definition classify :: "string \<Rightarrow> failedCall \<Rightarrow> ErrorKind" where
  "classify resetHeader c =
     (if transportFailure c then Network
      else if elapsedExceededDeadline c then Timeout
      else (case statusCode c of
              None \<Rightarrow> Generic
            | Some s \<Rightarrow>
                if s = 401 then Authentication
                else if (s = 403 \<or> s = 429)
                        \<and> indicatesRateLimitReset resetHeader (responseHeaders c)
                  then RateLimit
                else if s = 403 then Permission
                else if s = 404 then ResourceNotFound
                else if s = 409 then Conflict
                else Generic))"

section \<open>Requests and the environment\<close>

text \<open>
  What a function may throw: one of the classified errors, a schema violation
  (\<^verbatim>\<open>ZodError\<close>), a \<^verbatim>\<open>TypeError\<close> of the language (reading a property of
  \<^verbatim>\<open>undefined\<close> or \<^verbatim>\<open>null\<close>), or anything else.
\<close>

datatype exn =
    GitHubExn GitHubError
  | ZodError jsvalue
  | TypeError string
  | OtherError string

text \<open>
  A URL is the string it was built from and the query parameters \<^verbatim>\<open>buildUrl\<close>
  appended to it. A request is what \<^verbatim>\<open>githubRequest(url, options)\<close> receives; an
  option that the caller did not pass is \<open>None\<close> (or the empty header list). The
  field \<open>httpMethod\<close> is the option \<^verbatim>\<open>method\<close>.
\<close>

record url =
  base :: string
  searchParams :: "(string \<times> string) list"

record request =
  url :: url
  httpMethod :: "string option"
  headers :: "(string \<times> string) list"
  body :: "jsvalue option"

datatype paramValue = PString string | PNumber int

fun paramToString :: "paramValue \<Rightarrow> string" where
  "paramToString (PString s) = s"
| "paramToString (PNumber n) = showInt n"

definition plainUrl :: "string \<Rightarrow> url" where
  "plainUrl s = \<lparr>base = s, searchParams = []\<rparr>"

text \<open>
  Modelled from the spec: \<^verbatim>\<open>buildUrl\<close> of \<^verbatim>\<open>common/utils\<close> is not part of the
  sources at hand. Section 6 of the specification says that the parameters map to query
  parameters of the outbound URL (\<^verbatim>\<open>page\<close>, \<^verbatim>\<open>per_page\<close>, the literal \<^verbatim>\<open>"true"\<close>
  "when set"): every parameter that has a value is appended under its own name, in the
  order given, and a parameter that is \<^verbatim>\<open>undefined\<close> is left out.
\<close>

definition buildUrl :: "string \<Rightarrow> (string \<times> paramValue option) list \<Rightarrow> url" where
  "buildUrl baseUrl params =
     \<lparr>base = baseUrl,
      searchParams =
        List.map_filter (\<lambda>(k, v). map_option (\<lambda>x. (k, paramToString x)) v) params\<rparr>"

text \<open>
  Modelled from the spec: the validators of \<^verbatim>\<open>common/utils\<close> are not part of the
  sources at hand. Section 4.2 of the specification: a name fails with \<open>Validation\<close>
  if it is empty, exceeds the maximum identifier length, or contains a character
  outside \<^verbatim>\<open>[A-Za-z0-9-_.]\<close>; the rule is the same for owner and repository. The
  specification gives no number for the maximum length: it is the parameter
  \<open>maxLen\<close>. The messages are this model's wording; the rejected value is carried as
  the error's \<open>response\<close>.
\<close>

text \<open>Modelled from the spec: the character class \<^verbatim>\<open>[A-Za-z0-9-_.]\<close> of section 4.2.\<close>

definition allowedChar :: "char \<Rightarrow> bool" where
  "allowedChar c =
     (c \<in> set (''ABCDEFGHIJKLMNOPQRSTUVWXYZ'' @ ''abcdefghijklmnopqrstuvwxyz''
               @ ''0123456789'' @ ''-_.''))"

text \<open>Modelled from the spec: the owner/org name validator of section 4.2.\<close>

definition validateOwnerName :: "nat \<Rightarrow> string \<Rightarrow> exn + string" where
  "validateOwnerName maxLen owner =
     (if owner = [] then
        Inl (GitHubExn (GitHubValidationError ''Owner name cannot be empty'' (JString owner)))
      else if maxLen < length owner then
        Inl (GitHubExn (GitHubValidationError ''Owner name is too long'' (JString owner)))
      else if \<not> list_all allowedChar owner then
        Inl (GitHubExn
          (GitHubValidationError ''Owner name contains invalid characters'' (JString owner)))
      else Inr owner)"

text \<open>
  Modelled from the spec: the repository name validator of section 4.2, the same rule
  applied on its own.
\<close>

definition validateRepositoryName :: "nat \<Rightarrow> string \<Rightarrow> exn + string" where
  "validateRepositoryName maxLen repo =
     (if repo = [] then
        Inl (GitHubExn
          (GitHubValidationError ''Repository name cannot be empty'' (JString repo)))
      else if maxLen < length repo then
        Inl (GitHubExn (GitHubValidationError ''Repository name is too long'' (JString repo)))
      else if \<not> list_all allowedChar repo then
        Inl (GitHubExn
          (GitHubValidationError ''Repository name contains invalid characters''
             (JString repo)))
      else Inr repo)"

text \<open>
  The collaborators of \<^verbatim>\<open>operations/actions.ts\<close> that live outside it:
  \<^verbatim>\<open>githubRequest\<close> (the answer of the network to a request, or what it throws), the
  response schemas of \<^verbatim>\<open>common/types\<close> (\<^verbatim>\<open>Schema.parse\<close>), \<^verbatim>\<open>yaml.load\<close> of
  js-yaml (a thrown exception is given by its rendering \<^verbatim>\<open>String(e)\<close>),
  \<^verbatim>\<open>JSON.stringify\<close>, the conversion of a number to a string that a template literal
  \<^verbatim>\<open>`${n}`\<close> applies (decimal digits below \<^verbatim>\<open>1e21\<close>, an exponent from there on),
  and the maximum identifier length of the validators.
\<close>

datatype schema =
    WorkflowRunsSchema
  | WorkflowRunSchema
  | JobsSchema
  | WorkflowsSchema
  | WorkflowSchema
  | WorkflowUsageSchema

record env =
  maxIdentifierLength :: nat
  githubRequest :: "request \<Rightarrow> exn + jsvalue"
  schemaParse :: "schema \<Rightarrow> jsvalue \<Rightarrow> exn + jsvalue"
  yaml_load :: "string \<Rightarrow> string + jsvalue"
  JSON_stringify :: "jsvalue \<Rightarrow> string"
  Number_toString :: "int \<Rightarrow> string"

text \<open>
  An operation returns its result, or what it threw, together with the requests it
  handed to \<^verbatim>\<open>githubRequest\<close>, in order.
\<close>

type_synonym 'a io = "(exn + 'a) \<times> request list"

definition validated :: "env \<Rightarrow> string \<Rightarrow> string \<Rightarrow> (string \<Rightarrow> string \<Rightarrow> 'a io) \<Rightarrow> 'a io" where
  "validated e owner repo k =
     (case validateOwnerName (maxIdentifierLength e) owner of
        Inl x \<Rightarrow> (Inl x, [])
      | Inr owner' \<Rightarrow>
          (case validateRepositoryName (maxIdentifierLength e) repo of
             Inl x \<Rightarrow> (Inl x, [])
           | Inr repo' \<Rightarrow> k owner' repo'))"

definition await_githubRequest :: "env \<Rightarrow> request \<Rightarrow> (jsvalue \<Rightarrow> exn + 'a) \<Rightarrow> 'a io" where
  "await_githubRequest e rq k =
     (case githubRequest e rq of Inl x \<Rightarrow> (Inl x, [rq]) | Inr r \<Rightarrow> (k r, [rq]))"

definition repos :: "string \<Rightarrow> string \<Rightarrow> string" where
  "repos owner repo = ''https://api.github.com/repos/'' @ owner @ ''/'' @ repo"

definition get :: "url \<Rightarrow> request" where
  "get u = \<lparr>url = u, httpMethod = None, headers = [], body = None\<rparr>"

definition post :: "url \<Rightarrow> jsvalue option \<Rightarrow> request" where
  "post u b = \<lparr>url = u, httpMethod = Some ''POST'', headers = [], body = b\<rparr>"

section \<open>The operations (\<^verbatim>\<open>src/operations/actions.ts\<close>)\<close>

text \<open>
  A workflow is named by its numeric id or by a file name (\<^verbatim>\<open>string | number\<close>). A
  number that an operation receives (a run id, a workflow id, a page) is an integer
  here, as the ids of the API are; a template literal \<^verbatim>\<open>`${runId}`\<close> prints it with the
  conversion \<open>Number_toString\<close> of the environment, whatever its size.
\<close>

datatype workflowId = WorkflowName string | WorkflowNumber int

text \<open>\<^verbatim>\<open>`${workflowId}`\<close>, given the conversion of numbers.\<close>

fun showWorkflowId :: "(int \<Rightarrow> string) \<Rightarrow> workflowId \<Rightarrow> string" where
  "showWorkflowId toString (WorkflowName s) = s"
| "showWorkflowId toString (WorkflowNumber n) = toString n"

fun truthyWorkflowId :: "workflowId \<Rightarrow> bool" where
  "truthyWorkflowId (WorkflowName s) = (s \<noteq> [])"
| "truthyWorkflowId (WorkflowNumber n) = (n \<noteq> 0)"

definition listWorkflows :: "env \<Rightarrow> string \<Rightarrow> string \<Rightarrow> int option \<Rightarrow> int option \<Rightarrow> jsvalue io" where
  "listWorkflows e owner repo page perPage =
     validated e owner repo (\<lambda>owner repo.
       await_githubRequest e
         (get (buildUrl (repos owner repo @ ''/actions/workflows'')
            [(''page'', map_option PNumber page), (''per_page'', map_option PNumber perPage)]))
         (schemaParse e WorkflowsSchema))"

definition getWorkflow :: "env \<Rightarrow> string \<Rightarrow> string \<Rightarrow> workflowId \<Rightarrow> jsvalue io" where
  "getWorkflow e owner repo wid =
     validated e owner repo (\<lambda>owner repo.
       await_githubRequest e
         (get (plainUrl (repos owner repo @ ''/actions/workflows/'' @ showWorkflowId (Number_toString e) wid)))
         (schemaParse e WorkflowSchema))"

definition getWorkflowUsage :: "env \<Rightarrow> string \<Rightarrow> string \<Rightarrow> workflowId \<Rightarrow> jsvalue io" where
  "getWorkflowUsage e owner repo wid =
     validated e owner repo (\<lambda>owner repo.
       await_githubRequest e
         (get (plainUrl
            (repos owner repo @ ''/actions/workflows/'' @ showWorkflowId (Number_toString e) wid @ ''/timing'')))
         (schemaParse e WorkflowUsageSchema))"

definition getWorkflowRun :: "env \<Rightarrow> string \<Rightarrow> string \<Rightarrow> int \<Rightarrow> jsvalue io" where
  "getWorkflowRun e owner repo runId =
     validated e owner repo (\<lambda>owner repo.
       await_githubRequest e
         (get (plainUrl (repos owner repo @ ''/actions/runs/'' @ Number_toString e runId)))
         (schemaParse e WorkflowRunSchema))"

definition getWorkflowRunJobs ::
  "env \<Rightarrow> string \<Rightarrow> string \<Rightarrow> int \<Rightarrow> string option \<Rightarrow> int option \<Rightarrow> int option \<Rightarrow> jsvalue io" where
  "getWorkflowRunJobs e owner repo runId filter' page perPage =
     validated e owner repo (\<lambda>owner repo.
       await_githubRequest e
         (get (buildUrl (repos owner repo @ ''/actions/runs/'' @ Number_toString e runId @ ''/jobs'')
            [(''filter'', map_option PString filter'),
             (''page'', map_option PNumber page),
             (''per_page'', map_option PNumber perPage)]))
         (schemaParse e JobsSchema))"

text \<open>
  \<^verbatim>\<open>triggerWorkflow\<close>: the body starts as \<^verbatim>\<open>{ ref }\<close> and gets the field
  \<^verbatim>\<open>inputs\<close> when \<^verbatim>\<open>inputs && Object.keys(inputs).length > 0\<close>. The inputs are a
  \<^verbatim>\<open>Record<string, string>\<close>.
\<close>

definition recordToJs :: "(string \<times> string) list \<Rightarrow> jsvalue" where
  "recordToJs kvs = JObject (map (\<lambda>(k, v). (k, JString v)) kvs)"

definition triggerWorkflowBody :: "string \<Rightarrow> (string \<times> string) list option \<Rightarrow> jsvalue" where
  "triggerWorkflowBody ref inputs =
     (case inputs of
        None \<Rightarrow> JObject [(''ref'', JString ref)]
      | Some kvs \<Rightarrow>
          if 0 < length kvs
          then JObject [(''ref'', JString ref), (''inputs'', recordToJs kvs)]
          else JObject [(''ref'', JString ref)])"

definition triggerWorkflow ::
  "env \<Rightarrow> string \<Rightarrow> string \<Rightarrow> workflowId \<Rightarrow> string \<Rightarrow> (string \<times> string) list option \<Rightarrow> jsvalue io" where
  "triggerWorkflow e owner repo wid ref inputs =
     validated e owner repo (\<lambda>owner repo.
       await_githubRequest e
         (post (plainUrl
                  (repos owner repo @ ''/actions/workflows/'' @ showWorkflowId (Number_toString e) wid
                     @ ''/dispatches''))
               (Some (triggerWorkflowBody ref inputs)))
         (\<lambda>_. Inr (JObject
            [(''success'', JBool True),
             (''message'',
              JString (''Workflow '' @ showWorkflowId (Number_toString e) wid @ '' triggered on '' @ ref))])))"

definition cancelWorkflowRun :: "env \<Rightarrow> string \<Rightarrow> string \<Rightarrow> int \<Rightarrow> jsvalue io" where
  "cancelWorkflowRun e owner repo runId =
     validated e owner repo (\<lambda>owner repo.
       await_githubRequest e
         (post (plainUrl (repos owner repo @ ''/actions/runs/'' @ Number_toString e runId @ ''/cancel''))
               None)
         (\<lambda>_. Inr (JObject
            [(''success'', JBool True),
             (''message'', JString (''Workflow run '' @ Number_toString e runId @ '' cancelled''))])))"

definition rerunWorkflowRun :: "env \<Rightarrow> string \<Rightarrow> string \<Rightarrow> int \<Rightarrow> jsvalue io" where
  "rerunWorkflowRun e owner repo runId =
     validated e owner repo (\<lambda>owner repo.
       await_githubRequest e
         (post (plainUrl (repos owner repo @ ''/actions/runs/'' @ Number_toString e runId @ ''/rerun''))
               None)
         (\<lambda>_. Inr (JObject
            [(''success'', JBool True),
             (''message'', JString (''Workflow run '' @ Number_toString e runId @ '' restarted''))])))"

text \<open>
  \<^verbatim>\<open>encodeURIComponent\<close> keeps the unreserved characters and writes every other byte of
  the UTF-8 encoding as \<^verbatim>\<open>%XX\<close>; a \<open>char\<close> is a byte.
\<close>

definition unreservedChar :: "char \<Rightarrow> bool" where
  "unreservedChar c =
     (c \<in> set (''ABCDEFGHIJKLMNOPQRSTUVWXYZ'' @ ''abcdefghijklmnopqrstuvwxyz''
               @ ''0123456789'' @ ''-_.!~*()'' @ [CHR 0x27]))"

definition percentEncode :: "char \<Rightarrow> string" where
  "percentEncode c =
     [CHR ''%'', ''0123456789ABCDEF'' ! (of_char c div 16), ''0123456789ABCDEF'' ! (of_char c mod 16)]"

definition encodeURIComponent :: "string \<Rightarrow> string" where
  "encodeURIComponent s = concat (map (\<lambda>c. if unreservedChar c then [c] else percentEncode c) s)"

record yamlResult =
  yaml :: string

definition getWorkflowYaml :: "env \<Rightarrow> string \<Rightarrow> string \<Rightarrow> string \<Rightarrow> yamlResult io" where
  "getWorkflowYaml e owner repo wid =
     validated e owner repo (\<lambda>owner repo.
       await_githubRequest e
         \<lparr>url = plainUrl
                  (repos owner repo @ ''/contents/''
                     @ encodeURIComponent (''.github/workflows/'' @ wid)),
          httpMethod = None,
          headers = [(''Accept'', ''application/vnd.github.v3.raw'')],
          body = None\<rparr>
         (\<lambda>r. Inr \<lparr>yaml = (case r of JString s \<Rightarrow> s | _ \<Rightarrow> JSON_stringify e r)\<rparr>))"

subsection \<open>\<^verbatim>\<open>getWorkflowDispatchInputs\<close>\<close>

text \<open>
  Reading a property: of \<^verbatim>\<open>undefined\<close> or \<^verbatim>\<open>null\<close> it throws a \<^verbatim>\<open>TypeError\<close>; of
  an object it gives the property's value, or \<^verbatim>\<open>undefined\<close> when there is none; the
  names read here (\<^verbatim>\<open>on\<close>, \<^verbatim>\<open>workflow_dispatch\<close>, \<^verbatim>\<open>inputs\<close>) are properties of no
  boolean, number, string or array. \<^verbatim>\<open>a.b.c\<close> reads along a path.
\<close>

fun getProp :: "jsvalue \<Rightarrow> string \<Rightarrow> exn + jsvalue" where
  "getProp JUndefined k =
     Inl (TypeError (''Cannot read properties of undefined (reading '' @ k @ '')''))"
| "getProp JNull k =
     Inl (TypeError (''Cannot read properties of null (reading '' @ k @ '')''))"
| "getProp (JObject kvs) k = Inr (case map_of kvs k of Some v \<Rightarrow> v | None \<Rightarrow> JUndefined)"
| "getProp v k = Inr JUndefined"

fun getPath :: "jsvalue \<Rightarrow> string list \<Rightarrow> exn + jsvalue" where
  "getPath v [] = Inr v"
| "getPath v (k # ks) = (case getProp v k of Inl x \<Rightarrow> Inl x | Inr w \<Rightarrow> getPath w ks)"

text \<open>
  \<^verbatim>\<open>a && b\<close> is \<^verbatim>\<open>a\<close> when \<^verbatim>\<open>a\<close> is falsy and \<^verbatim>\<open>b\<close> otherwise; \<^verbatim>\<open>b\<close> is not
  evaluated (and cannot throw) in the first case.
\<close>

definition jsAnd :: "exn + jsvalue \<Rightarrow> exn + jsvalue \<Rightarrow> exn + jsvalue" where
  "jsAnd a b = (case a of Inl x \<Rightarrow> Inl x | Inr v \<Rightarrow> if truthy v then b else Inr v)"

text \<open>
  The condition \<^verbatim>\<open>doc && doc.on && doc.on.workflow_dispatch &&
  doc.on.workflow_dispatch.inputs\<close>; the second branch of the source writes the same
  reads with brackets (\<^verbatim>\<open>doc.on['workflow_dispatch']\<close>).
\<close>

definition hasDispatchInputs :: "jsvalue \<Rightarrow> exn + jsvalue" where
  "hasDispatchInputs doc =
     jsAnd (jsAnd (jsAnd (Inr doc) (getPath doc [''on'']))
                  (getPath doc [''on'', ''workflow_dispatch'']))
           (getPath doc [''on'', ''workflow_dispatch'', ''inputs''])"

definition findDispatchInputs :: "jsvalue \<Rightarrow> exn + jsvalue" where
  "findDispatchInputs doc =
     (case hasDispatchInputs doc of
        Inl x \<Rightarrow> Inl x
      | Inr c \<Rightarrow>
          if truthy c then getPath doc [''on'', ''workflow_dispatch'', ''inputs'']
          else (case hasDispatchInputs doc of
                  Inl x \<Rightarrow> Inl x
                | Inr c' \<Rightarrow>
                    if truthy c' then getPath doc [''on'', ''workflow_dispatch'', ''inputs'']
                    else Inr JUndefined))"

text \<open>
  \<^verbatim>\<open>Object.entries\<close>: the properties of an object; the elements of an array and the
  characters of a string under their indices; nothing for a number or a boolean; a
  \<^verbatim>\<open>TypeError\<close> for \<^verbatim>\<open>undefined\<close> and \<^verbatim>\<open>null\<close>.
\<close>

fun Object_entries :: "jsvalue \<Rightarrow> exn + (string \<times> jsvalue) list" where
  "Object_entries (JObject kvs) = Inr kvs"
| "Object_entries (JArray xs) = Inr (zip (map showNat [0..<length xs]) xs)"
| "Object_entries (JString s) =
     Inr (zip (map showNat [0..<length s]) (map (\<lambda>c. JString [c]) s))"
| "Object_entries (JNumber n) = Inr []"
| "Object_entries (JBool b) = Inr []"
| "Object_entries v = Inl (TypeError ''Cannot convert undefined or null to object'')"

text \<open>
  The order of the properties of an object. \<^verbatim>\<open>Object.entries\<close>, \<^verbatim>\<open>Object.keys\<close>,
  the spread \<^verbatim>\<open>...meta\<close> and \<^verbatim>\<open>JSON.stringify\<close> list the properties whose names are
  array indices first, in ascending numeric order, and then the other properties in the
  order in which they were created. An array index is the decimal numeral, without sign
  or leading zero, of a number up to \<^verbatim>\<open>2^32 - 2\<close>.
\<close>

definition digitValue :: "char \<Rightarrow> nat" where
  "digitValue c = length (takeWhile (\<lambda>d. d \<noteq> c) ''0123456789'')"

definition decimalValue :: "string \<Rightarrow> nat" where
  "decimalValue s = foldl (\<lambda>n c. 10 * n + digitValue c) 0 s"

definition arrayIndex :: "string \<Rightarrow> nat option" where
  "arrayIndex k =
     (if k \<noteq> [] \<and> list_all (\<lambda>c. c \<in> set ''0123456789'') k
         \<and> (hd k \<noteq> CHR ''0'' \<or> k = ''0'') \<and> decimalValue k < 4294967295
      then Some (decimalValue k) else None)"

text \<open>
  The place of a property in the enumeration: an array index ranks by its number, every
  other name ranks after all array indices.
\<close>

definition propertyRank :: "string \<Rightarrow> nat" where
  "propertyRank k = (case arrayIndex k of Some i \<Rightarrow> i | None \<Rightarrow> 4294967295)"

text \<open>
  Creating a property \<open>p\<close> whose name is the array index \<open>i\<close>: it comes to stand in
  front of the first property that ranks above it.
\<close>

fun insertIndexed :: "nat \<Rightarrow> string \<times> jsvalue \<Rightarrow> (string \<times> jsvalue) list \<Rightarrow> (string \<times> jsvalue) list" where
  "insertIndexed i p [] = [p]"
| "insertIndexed i p (q # qs) =
     (if i < propertyRank (fst q) then p # q # qs else q # insertIndexed i p qs)"

text \<open>
  The assignment \<^verbatim>\<open>obj[k] = v\<close> to a plain object (and the definition of a property
  by an object literal or a spread): a property that exists keeps its place and takes
  the new value; a new property is created, among the array indices or after all
  properties.
\<close>

definition setProperty :: "string \<Rightarrow> jsvalue \<Rightarrow> (string \<times> jsvalue) list \<Rightarrow> (string \<times> jsvalue) list" where
  "setProperty k v props =
     (if k \<in> fst ` set props then AList.update k v props
      else (case arrayIndex k of
              None \<Rightarrow> props @ [(k, v)]
            | Some i \<Rightarrow> insertIndexed i (k, v) props))"

text \<open>
  The object literal \<^verbatim>\<open>{ name, ...meta }\<close>: the property \<^verbatim>\<open>name\<close> is created first,
  then every property of \<^verbatim>\<open>meta\<close> is assigned, in the order of \<^verbatim>\<open>meta\<close>. So a
  field of \<^verbatim>\<open>meta\<close> called \<^verbatim>\<open>name\<close> replaces the value of \<^verbatim>\<open>name\<close>, and a field
  whose name is an array index is listed before \<^verbatim>\<open>name\<close>.
\<close>

definition spread :: "(string \<times> jsvalue) list \<Rightarrow> (string \<times> jsvalue) list \<Rightarrow> (string \<times> jsvalue) list" where
  "spread target src = foldl (\<lambda>acc (k, v). setProperty k v acc) target src"

text \<open>
  The parser is a collaborator (\<^verbatim>\<open>yaml.load\<close> of js-yaml, a parameter of the
  environment). Where the order of a document matters, one thing is assumed of it: for a
  mapping it starts from an empty object and stores the pairs one after another, in the
  order of the source (\<^verbatim>\<open>_result[key] = value\<close>). These are the properties of the
  object so built, as the language lists them.
\<close>

definition storeMappingPairs :: "(string \<times> jsvalue) list \<Rightarrow> (string \<times> jsvalue) list" where
  "storeMappingPairs pairs = spread [] pairs"

fun inputRecord :: "string \<times> jsvalue \<Rightarrow> jsvalue" where
  "inputRecord (name, JObject meta) = JObject (spread [(''name'', JString name)] meta)"
| "inputRecord (name, meta) = JObject [(''name'', JString name)]"

definition getWorkflowDispatchInputs :: "env \<Rightarrow> string \<Rightarrow> string \<Rightarrow> string \<Rightarrow> jsvalue io" where
  "getWorkflowDispatchInputs e owner repo wid =
     (case getWorkflowYaml e owner repo wid of
        (Inl x, reqs) \<Rightarrow> (Inl x, reqs)
      | (Inr fetched, reqs) \<Rightarrow>
          ((case yaml_load e (yaml fetched) of
              Inl ex \<Rightarrow>
                Inr (JObject [(''error'', JString ''Failed to parse workflow YAML''),
                              (''details'', JString ex)])
            | Inr doc \<Rightarrow>
                (case findDispatchInputs doc of
                   Inl x \<Rightarrow> Inl x
                 | Inr inputs \<Rightarrow>
                     if \<not> truthy inputs then
                       Inr (JObject
                         [(''error'',
                           JString ''No workflow_dispatch inputs found in workflow YAML.'')])
                     else
                       (case Object_entries inputs of
                          Inl x \<Rightarrow> Inl x
                        | Inr entries \<Rightarrow>
                            Inr (JObject [(''inputs'', JArray (map inputRecord entries))])))),
           reqs))"

subsection \<open>\<^verbatim>\<open>listWorkflowRuns\<close>\<close>

record listWorkflowRunsOptions =
  workflowId :: "workflowId option"
  actor :: "string option"
  branch :: "string option"
  event :: "string option"
  status :: "string option"
  created :: "string option"
  excludePullRequests :: "bool option"
  checkSuiteId :: "int option"
  page :: "int option"
  perPage :: "int option"

definition listWorkflowRuns :: "env \<Rightarrow> string \<Rightarrow> string \<Rightarrow> listWorkflowRunsOptions \<Rightarrow> jsvalue io" where
  "listWorkflowRuns e owner repo options =
     validated e owner repo (\<lambda>owner repo.
       await_githubRequest e
         (get (buildUrl
            (case workflowId options of
               None \<Rightarrow> repos owner repo @ ''/actions/runs''
             | Some w \<Rightarrow>
                 if truthyWorkflowId w
                 then repos owner repo @ ''/actions/workflows/'' @ showWorkflowId (Number_toString e) w @ ''/runs''
                 else repos owner repo @ ''/actions/runs'')
            [(''actor'', map_option PString (actor options)),
             (''branch'', map_option PString (branch options)),
             (''event'', map_option PString (event options)),
             (''status'', map_option PString (status options)),
             (''created'', map_option PString (created options)),
             (''exclude_pull_requests'',
              if excludePullRequests options = Some True then Some (PString ''true'') else None),
             (''check_suite_id'', map_option PNumber (checkSuiteId options)),
             (''page'', map_option PNumber (page options)),
             (''per_page'', map_option PNumber (perPage options))]))
         (schemaParse e WorkflowRunsSchema))"

section \<open>The server (\<^verbatim>\<open>src/index.ts\<close>)\<close>

subsection \<open>The tools\<close>

text \<open>
  One constructor per \<^verbatim>\<open>server.tool\<close> registration, with the arguments the handler
  reads from the request (already parsed against the tool's schema, in which a workflow
  is named by a string). A handler calls its operation and answers with the text
  \<^verbatim>\<open>JSON.stringify(result)\<close>; \<^verbatim>\<open>get_workflow_yaml\<close> answers with the YAML itself.
\<close>

datatype toolCall =
    list_workflows string string "int option" "int option"
  | get_workflow string string string
  | get_workflow_usage string string string
  | list_workflow_runs string string listWorkflowRunsOptions
  | get_workflow_run string string int
  | get_workflow_run_jobs string string int "string option" "int option" "int option"
  | trigger_workflow string string string string "(string \<times> string) list option"
  | cancel_workflow_run string string int
  | rerun_workflow string string int
  | get_workflow_yaml string string string
  | get_workflow_dispatch_inputs string string string

fun requestOwner :: "toolCall \<Rightarrow> string" where
  "requestOwner (list_workflows owner repo p pp) = owner"
| "requestOwner (get_workflow owner repo w) = owner"
| "requestOwner (get_workflow_usage owner repo w) = owner"
| "requestOwner (list_workflow_runs owner repo opts) = owner"
| "requestOwner (get_workflow_run owner repo r) = owner"
| "requestOwner (get_workflow_run_jobs owner repo r f p pp) = owner"
| "requestOwner (trigger_workflow owner repo w rf ins) = owner"
| "requestOwner (cancel_workflow_run owner repo r) = owner"
| "requestOwner (rerun_workflow owner repo r) = owner"
| "requestOwner (get_workflow_yaml owner repo w) = owner"
| "requestOwner (get_workflow_dispatch_inputs owner repo w) = owner"

fun requestRepo :: "toolCall \<Rightarrow> string" where
  "requestRepo (list_workflows owner repo p pp) = repo"
| "requestRepo (get_workflow owner repo w) = repo"
| "requestRepo (get_workflow_usage owner repo w) = repo"
| "requestRepo (list_workflow_runs owner repo opts) = repo"
| "requestRepo (get_workflow_run owner repo r) = repo"
| "requestRepo (get_workflow_run_jobs owner repo r f p pp) = repo"
| "requestRepo (trigger_workflow owner repo w rf ins) = repo"
| "requestRepo (cancel_workflow_run owner repo r) = repo"
| "requestRepo (rerun_workflow owner repo r) = repo"
| "requestRepo (get_workflow_yaml owner repo w) = repo"
| "requestRepo (get_workflow_dispatch_inputs owner repo w) = repo"

definition textContent :: "('a \<Rightarrow> string) \<Rightarrow> 'a io \<Rightarrow> string io" where
  "textContent f r = (case r of (Inl x, reqs) \<Rightarrow> (Inl x, reqs) | (Inr v, reqs) \<Rightarrow> (Inr (f v), reqs))"

fun callTool :: "env \<Rightarrow> toolCall \<Rightarrow> string io" where
  "callTool e (list_workflows owner repo p pp) =
     textContent (JSON_stringify e) (listWorkflows e owner repo p pp)"
| "callTool e (get_workflow owner repo w) =
     textContent (JSON_stringify e) (getWorkflow e owner repo (WorkflowName w))"
| "callTool e (get_workflow_usage owner repo w) =
     textContent (JSON_stringify e) (getWorkflowUsage e owner repo (WorkflowName w))"
| "callTool e (list_workflow_runs owner repo opts) =
     textContent (JSON_stringify e) (listWorkflowRuns e owner repo opts)"
| "callTool e (get_workflow_run owner repo r) =
     textContent (JSON_stringify e) (getWorkflowRun e owner repo r)"
| "callTool e (get_workflow_run_jobs owner repo r f p pp) =
     textContent (JSON_stringify e) (getWorkflowRunJobs e owner repo r f p pp)"
| "callTool e (trigger_workflow owner repo w rf ins) =
     textContent (JSON_stringify e) (triggerWorkflow e owner repo (WorkflowName w) rf ins)"
| "callTool e (cancel_workflow_run owner repo r) =
     textContent (JSON_stringify e) (cancelWorkflowRun e owner repo r)"
| "callTool e (rerun_workflow owner repo r) =
     textContent (JSON_stringify e) (rerunWorkflowRun e owner repo r)"
| "callTool e (get_workflow_yaml owner repo w) =
     textContent yaml (getWorkflowYaml e owner repo w)"
| "callTool e (get_workflow_dispatch_inputs owner repo w) =
     textContent (JSON_stringify e) (getWorkflowDispatchInputs e owner repo w)"

subsection \<open>Start-up: the token\<close>

text \<open>
  The loop over \<^verbatim>\<open>process.argv\<close> stops at the first argument that starts with
  \<^verbatim>\<open>--token=\<close> and takes the rest of it. \<^verbatim>\<open>cliToken || process.env.\<dots>\<close> is the
  command-line token when it is truthy (defined and not empty), the environment
  variable otherwise; \<^verbatim>\<open>!GITHUB_TOKEN\<close> holds for \<^verbatim>\<open>undefined\<close> and for the empty
  string. The process either exits with a code or goes on to create the client with
  the token and to register and serve the tools; the second component is what it logs
  on the way.
\<close>

fun cliToken :: "string list \<Rightarrow> string option" where
  "cliToken [] = None"
| "cliToken (arg # args) =
     (if prefix ''--token='' arg then Some (drop (length ''--token='') arg) else cliToken args)"

definition GITHUB_TOKEN :: "string list \<Rightarrow> string option \<Rightarrow> string option" where
  "GITHUB_TOKEN argv envToken =
     (case cliToken argv of
        None \<Rightarrow> envToken
      | Some t \<Rightarrow> if t \<noteq> [] then Some t else envToken)"

datatype startupResult = Exit int | Serving string

definition startup :: "string list \<Rightarrow> string option \<Rightarrow> startupResult \<times> string list" where
  "startup argv envToken =
     (case GITHUB_TOKEN argv envToken of
        None \<Rightarrow>
          (Exit 1, [''FATAL: GITHUB_PERSONAL_ACCESS_TOKEN environment variable is not set.''])
      | Some t \<Rightarrow>
          if t = [] then
            (Exit 1, [''FATAL: GITHUB_PERSONAL_ACCESS_TOKEN environment variable is not set.''])
          else
            (Serving t,
             [''[MCP Server Log] GitHub token found.'', ''[MCP Server Log] Octokit initialized.'']))"

text \<open>
  The process as a whole: the calls it is sent are answered only if start-up got as
  far as serving.
\<close>

definition serverProcess ::
  "env \<Rightarrow> string list \<Rightarrow> string option \<Rightarrow> toolCall list \<Rightarrow> startupResult \<times> string io list" where
  "serverProcess e argv envToken calls =
     (case fst (startup argv envToken) of
        Exit c \<Rightarrow> (Exit c, [])
      | Serving t \<Rightarrow> (Serving t, map (callTool e) calls))"

section \<open>Example environments\<close>

text \<open>
  A network that answers every request with the given text, a YAML parser that yields
  the given outcome, schemas that accept every response, numbers rendered in decimal
  (as the language renders the whole numbers below \<^verbatim>\<open>1e21\<close>), and a maximum
  identifier length of 100.
\<close>

definition exampleEnv :: "string \<Rightarrow> string + jsvalue \<Rightarrow> env" where
  "exampleEnv text parsed =
     \<lparr>maxIdentifierLength = 100,
      githubRequest = (\<lambda>rq. Inr (JString text)),
      schemaParse = (\<lambda>sch v. Inr v),
      yaml_load = (\<lambda>t. parsed),
      JSON_stringify = (\<lambda>v. ''<json>''),
      Number_toString = showInt\<rparr>"

text \<open>
  A network on which every request fails with the given thrown value; the rest as
  above.
\<close>

definition failingEnv :: "exn \<Rightarrow> env" where
  "failingEnv x =
     \<lparr>maxIdentifierLength = 100,
      githubRequest = (\<lambda>rq. Inl x),
      schemaParse = (\<lambda>sch v. Inr v),
      yaml_load = (\<lambda>t. Inr JNull),
      JSON_stringify = (\<lambda>v. ''<json>''),
      Number_toString = showInt\<rparr>"

definition workflowDocument :: "(string \<times> jsvalue) list \<Rightarrow> jsvalue" where
  "workflowDocument inputs =
     JObject [(''on'', JObject [(''workflow_dispatch'', JObject [(''inputs'', JObject inputs)])])]"

text \<open>
  The path \<^verbatim>\<open>on.workflow_dispatch.inputs\<close> of a document, as a document has it: the
  value found by descending through nested mappings, or nothing when a key is missing
  or a value on the way is not a mapping.
\<close>

fun lookupPath :: "jsvalue \<Rightarrow> string list \<Rightarrow> jsvalue option" where
  "lookupPath v [] = Some v"
| "lookupPath (JObject kvs) (k # ks) =
     (case map_of kvs k of None \<Rightarrow> None | Some w \<Rightarrow> lookupPath w ks)"
| "lookupPath v (k # ks) = None"

definition allKinds :: "ErrorKind list" where
  "allKinds =
     [Validation, ResourceNotFound, Authentication, Permission, RateLimit, Conflict,
      Timeout, Network, Generic]"

section \<open>Evaluation lemmas\<close>

lemma replicate_numeral: "replicate (numeral k) x = x # replicate (pred_numeral k) x"
  by (simp add: numeral_eq_Suc)

lemmas iso_defs = toISOString_def yearFromTime_def monthFromTime_def dateFromTime_def
  hourFromTime_def minFromTime_def secFromTime_def msFromTime_def dayOfEra_def yearOfEra_def
  dayOfYear_def monthIndex_def monthFromDay_def dateFromDay_def yearFromDay_def showYear_def
  padStart_def replicate_numeral

lemma toISOString_2023: "toISOString 1700000000000 = ''2023-11-14T22:13:20.000Z''"
  by (simp add: iso_defs showNat.simps)

lemma toISOString_epoch: "toISOString 0 = ''1970-01-01T00:00:00.000Z''"
  by (simp add: iso_defs showNat.simps)

lemma toISOString_before_year_0: "toISOString (- 62167219200001) = ''-000001-12-31T23:59:59.999Z''"
  by (simp add: iso_defs showNat.simps)

lemma toISOString_leap_day: "toISOString 1709251199999 = ''2024-02-29T23:59:59.999Z''"
  by (simp add: iso_defs showNat.simps)

section \<open>The formatting of errors\<close>

text \<open>
  Claim C2. For every error, \<^verbatim>\<open>formatGitHubError\<close> yields a message that begins with
  the prefix of the error's kind followed by the error's message; the nine prefixes are
  pairwise distinct. A rate-limit error is followed by a line with the reset time as an
  ISO-8601 timestamp, a timeout by a line with the configured timeout in milliseconds.
  Each kind has its one rule, listed here in full; the rule of the base class (kind
  \<open>Generic\<close>) is the message the function starts from and is kept by no other kind.
\<close>

theorem formatGitHubError_rules:
  "prefix (kindPrefix (kindOf err) @ message err) (formatGitHubError f err)
   \<and> distinct (map kindPrefix allKinds)
   \<and> formatGitHubError f (GitHubRateLimitError msg t) =
       ''Rate Limit Exceeded: '' @ msg @ newline @ ''Resets at: '' @ toISOString t
   \<and> formatGitHubError f (GitHubTimeoutError msg ms) =
       ''Timeout: '' @ msg @ newline @ ''Timeout setting: '' @ showInt ms @ ''ms''
   \<and> formatGitHubError f (GitHubValidationError msg resp) =
       ''Validation Error: '' @ msg
         @ (if truthy resp then newline @ ''Details: '' @ f resp else [])
   \<and> formatGitHubError f (GitHubNetworkError msg code) =
       ''Network Error: '' @ msg @ newline @ ''Error code: '' @ code
   \<and> formatGitHubError f (GitHubResourceNotFoundError msg) = ''Not Found: '' @ msg
   \<and> formatGitHubError f (GitHubAuthenticationError msg) = ''Authentication Failed: '' @ msg
   \<and> formatGitHubError f (GitHubPermissionError msg) = ''Permission Denied: '' @ msg
   \<and> formatGitHubError f (GitHubConflictError msg) = ''Conflict: '' @ msg
   \<and> formatGitHubError f (GitHubErrorBase msg resp) = ''GitHub API Error: '' @ msg"
proof -
  have "prefix (kindPrefix (kindOf err) @ message err) (formatGitHubError f err)"
    by (cases err) simp_all
  moreover have "distinct (map kindPrefix allKinds)"
    by (simp add: allKinds_def)
  ultimately show ?thesis by simp
qed

theorem formatGitHubError_rules_witness:
  "formatGitHubError (\<lambda>v. ''{}'')
       (GitHubRateLimitError ''API rate limit exceeded'' 1700000000000) =
     ''Rate Limit Exceeded: API rate limit exceeded'' @ newline
       @ ''Resets at: 2023-11-14T22:13:20.000Z''
   \<and> formatGitHubError (\<lambda>v. ''{}'') (GitHubTimeoutError ''Request timed out'' 30000) =
     ''Timeout: Request timed out'' @ newline @ ''Timeout setting: 30000ms''
   \<and> prefix ''Authentication Failed: Bad credentials''
        (formatGitHubError (\<lambda>v. ''{}'') (GitHubAuthenticationError ''Bad credentials''))"
  using formatGitHubError_rules
          [where err = "GitHubAuthenticationError ''Bad credentials''" and f = "\<lambda>v. ''{}''"
             and msg = "''API rate limit exceeded''" and t = 1700000000000]
        formatGitHubError_rules
          [where err = "GitHubAuthenticationError ''Bad credentials''" and f = "\<lambda>v. ''{}''"
             and msg = "''Request timed out''" and ms = 30000]
  by (simp add: toISOString_2023 showInt_def showNat.simps)

section \<open>Validation comes first\<close>

lemma validateOwnerName_result:
  "validateOwnerName n s = Inr s
   \<or> (\<exists>m. validateOwnerName n s = Inl (GitHubExn (GitHubValidationError m (JString s))))"
  by (simp add: validateOwnerName_def)

lemma validateRepositoryName_result:
  "validateRepositoryName n s = Inr s
   \<or> (\<exists>m. validateRepositoryName n s = Inl (GitHubExn (GitHubValidationError m (JString s))))"
  by (simp add: validateRepositoryName_def)

lemma validateOwnerName_fails_iff:
  "(\<exists>x. validateOwnerName n s = Inl x) \<longleftrightarrow> s = [] \<or> n < length s \<or> (\<exists>c\<in>set s. \<not> allowedChar c)"
  by (auto simp add: validateOwnerName_def list_all_iff)

lemma validateRepositoryName_fails_iff:
  "(\<exists>x. validateRepositoryName n s = Inl x) \<longleftrightarrow> s = [] \<or> n < length s \<or> (\<exists>c\<in>set s. \<not> allowedChar c)"
  by (auto simp add: validateRepositoryName_def list_all_iff)

lemma validated_rejects:
  assumes "(\<exists>x. validateOwnerName (maxIdentifierLength e) owner = Inl x)
           \<or> (\<exists>x. validateRepositoryName (maxIdentifierLength e) repo = Inl x)"
  shows "\<exists>m v. \<forall>k. validated e owner repo k = (Inl (GitHubExn (GitHubValidationError m v)), [])"
proof (cases "validateOwnerName (maxIdentifierLength e) owner")
  case (Inl x)
  with validateOwnerName_result [of "maxIdentifierLength e" owner]
  show ?thesis by (auto simp add: validated_def)
next
  case (Inr owner')
  with assms obtain y where y: "validateRepositoryName (maxIdentifierLength e) repo = Inl y"
    by auto
  with validateRepositoryName_result [of "maxIdentifierLength e" repo]
  obtain m where "y = GitHubExn (GitHubValidationError m (JString repo))" by auto
  with Inr y show ?thesis by (auto simp add: validated_def)
qed

lemma textContent_rejected: "textContent f (Inl x, reqs) = (Inl x, reqs)"
  by (simp add: textContent_def)

lemma getWorkflowDispatchInputs_rejected:
  "getWorkflowYaml e owner repo w = (Inl x, reqs) \<Longrightarrow>
   getWorkflowDispatchInputs e owner repo w = (Inl x, reqs)"
  by (simp add: getWorkflowDispatchInputs_def)

lemma callTool_rejects:
  assumes "(\<exists>x. validateOwnerName (maxIdentifierLength e) (requestOwner call) = Inl x)
           \<or> (\<exists>x. validateRepositoryName (maxIdentifierLength e) (requestRepo call) = Inl x)"
  shows "\<exists>m v. callTool e call = (Inl (GitHubExn (GitHubValidationError m v)), [])"
proof -
  obtain m v where j: "\<And>k :: string \<Rightarrow> string \<Rightarrow> jsvalue io.
      validated e (requestOwner call) (requestRepo call) k
        = (Inl (GitHubExn (GitHubValidationError m v)), [])"
    using validated_rejects [OF assms] by blast
  obtain m' v' where y: "\<And>k :: string \<Rightarrow> string \<Rightarrow> yamlResult io.
      validated e (requestOwner call) (requestRepo call) k
        = (Inl (GitHubExn (GitHubValidationError m' v')), [])"
    using validated_rejects [OF assms] by blast
  show ?thesis
  proof (cases call)
    case (list_workflows owner repo p pp)
    with j show ?thesis
      by (simp add: listWorkflows_def textContent_rejected)
  next
    case (get_workflow owner repo w)
    with j show ?thesis
      by (simp add: getWorkflow_def textContent_rejected)
  next
    case (get_workflow_usage owner repo w)
    with j show ?thesis
      by (simp add: getWorkflowUsage_def textContent_rejected)
  next
    case (list_workflow_runs owner repo opts)
    with j show ?thesis
      by (simp add: listWorkflowRuns_def textContent_rejected)
  next
    case (get_workflow_run owner repo rn)
    with j show ?thesis
      by (simp add: getWorkflowRun_def textContent_rejected)
  next
    case (get_workflow_run_jobs owner repo rn f p pp)
    with j show ?thesis
      by (simp add: getWorkflowRunJobs_def textContent_rejected)
  next
    case (trigger_workflow owner repo w rf ins)
    with j show ?thesis
      by (simp add: triggerWorkflow_def textContent_rejected)
  next
    case (cancel_workflow_run owner repo rn)
    with j show ?thesis
      by (simp add: cancelWorkflowRun_def textContent_rejected)
  next
    case (rerun_workflow owner repo rn)
    with j show ?thesis
      by (simp add: rerunWorkflowRun_def textContent_rejected)
  next
    case (get_workflow_yaml owner repo w)
    with y show ?thesis
      by (simp add: getWorkflowYaml_def textContent_rejected)
  next
    case (get_workflow_dispatch_inputs owner repo w)
    with y show ?thesis
      by (simp add: getWorkflowYaml_def textContent_rejected getWorkflowDispatchInputs_rejected)
  qed
qed

section \<open>The results of trigger, cancel and rerun\<close>

lemma triggerWorkflow_result:
  "(\<exists>x. fst (triggerWorkflow e owner repo wid ref inputs) = Inl x)
   \<or> fst (triggerWorkflow e owner repo wid ref inputs) =
        Inr (JObject [(''success'', JBool True),
                      (''message'',
                       JString (''Workflow '' @ showWorkflowId (Number_toString e) wid
                                  @ '' triggered on '' @ ref))])"
  by (simp add: triggerWorkflow_def validated_def await_githubRequest_def split: sum.splits)

lemma cancelWorkflowRun_result:
  "(\<exists>x. fst (cancelWorkflowRun e owner repo runId) = Inl x)
   \<or> fst (cancelWorkflowRun e owner repo runId) =
        Inr (JObject [(''success'', JBool True),
                      (''message'',
                       JString (''Workflow run '' @ Number_toString e runId @ '' cancelled''))])"
  by (simp add: cancelWorkflowRun_def validated_def await_githubRequest_def split: sum.splits)

lemma rerunWorkflowRun_result:
  "(\<exists>x. fst (rerunWorkflowRun e owner repo runId) = Inl x)
   \<or> fst (rerunWorkflowRun e owner repo runId) =
        Inr (JObject [(''success'', JBool True),
                      (''message'',
                       JString (''Workflow run '' @ Number_toString e runId @ '' restarted''))])"
  by (simp add: rerunWorkflowRun_def validated_def await_githubRequest_def split: sum.splits)

text \<open>
  When the owner and the repository pass validation, the operation is its continuation.
\<close>

lemma validated_passes:
  "validateOwnerName (maxIdentifierLength e) owner = Inr owner \<Longrightarrow>
   validateRepositoryName (maxIdentifierLength e) repo = Inr repo \<Longrightarrow>
   validated e owner repo k = k owner repo"
  by (simp add: validated_def)

text \<open>
  What an operation of the shape ``validate, then await one request, then return a
  literal'' throws is thrown by a validator or by \<^verbatim>\<open>githubRequest\<close>: when the latter
  throws classified errors only, so does the operation.
\<close>

lemma raised_by_operation:
  assumes "\<forall>rq x. githubRequest e rq = Inl x \<longrightarrow> (\<exists>g. x = GitHubExn g)"
    and "fst (validated e owner repo
                (\<lambda>owner repo. await_githubRequest e (rq owner repo) (\<lambda>r. Inr v))) = Inl x"
  shows "\<exists>g. x = GitHubExn g"
  using assms validateOwnerName_result [of "maxIdentifierLength e" owner]
    validateRepositoryName_result [of "maxIdentifierLength e" repo]
  by (auto simp add: validated_def await_githubRequest_def split: sum.splits)

lemma triggerWorkflow_raises_classified:
  assumes "\<forall>rq x. githubRequest e rq = Inl x \<longrightarrow> (\<exists>g. x = GitHubExn g)"
    and "fst (triggerWorkflow e owner repo wid ref inputs) = Inl x"
  shows "\<exists>g. x = GitHubExn g"
  using assms(2) unfolding triggerWorkflow_def
  by (rule raised_by_operation [OF assms(1)])

lemma cancelWorkflowRun_raises_classified:
  assumes "\<forall>rq x. githubRequest e rq = Inl x \<longrightarrow> (\<exists>g. x = GitHubExn g)"
    and "fst (cancelWorkflowRun e owner repo runId) = Inl x"
  shows "\<exists>g. x = GitHubExn g"
  using assms(2) unfolding cancelWorkflowRun_def
  by (rule raised_by_operation [OF assms(1)])

lemma rerunWorkflowRun_raises_classified:
  assumes "\<forall>rq x. githubRequest e rq = Inl x \<longrightarrow> (\<exists>g. x = GitHubExn g)"
    and "fst (rerunWorkflowRun e owner repo runId) = Inl x"
  shows "\<exists>g. x = GitHubExn g"
  using assms(2) unfolding rerunWorkflowRun_def
  by (rule raised_by_operation [OF assms(1)])

text \<open>
  Claim C10. For \<^verbatim>\<open>triggerWorkflow\<close>, \<^verbatim>\<open>cancelWorkflowRun\<close> and \<^verbatim>\<open>rerunWorkflowRun\<close>:

  \<^item> when the operation returns, the record returned has \<^verbatim>\<open>success\<close> equal to
    \<^verbatim>\<open>true\<close> and the message \<^verbatim>\<open>Workflow ${workflowId} triggered on ${ref}\<close>,
    \<^verbatim>\<open>Workflow run ${runId} cancelled\<close> or \<^verbatim>\<open>Workflow run ${runId} restarted\<close>, the
    number printed as the template literal prints it;

  \<^item> when the owner and the repository pass validation, the operation hands exactly one
    request to \<^verbatim>\<open>githubRequest\<close>; if that request fails, the operation throws what
    \<^verbatim>\<open>githubRequest\<close> threw and returns no record, and if it succeeds, the operation
    returns the success record, whatever the response was;

  \<^item> when the owner or the repository fails validation, the three operations throw a
    \<^verbatim>\<open>GitHubValidationError\<close> and make no request;

  \<^item> when \<^verbatim>\<open>githubRequest\<close> throws classified errors only (instances of
    \<^verbatim>\<open>GitHubError\<close>), everything the three operations throw is a classified error.

  So a failure is a thrown value; no record with \<^verbatim>\<open>success\<close> false is ever
  returned.
\<close>

theorem action_results:
  "(triggerWorkflow e owner repo wid ref inputs = (Inr r1, reqs1) \<longrightarrow>
      r1 = JObject [(''success'', JBool True),
                    (''message'',
                     JString (''Workflow '' @ showWorkflowId (Number_toString e) wid
                                @ '' triggered on '' @ ref))])
   \<and> (cancelWorkflowRun e owner repo runId = (Inr r2, reqs2) \<longrightarrow>
      r2 = JObject [(''success'', JBool True),
                    (''message'',
                     JString (''Workflow run '' @ Number_toString e runId @ '' cancelled''))])
   \<and> (rerunWorkflowRun e owner repo runId = (Inr r3, reqs3) \<longrightarrow>
      r3 = JObject [(''success'', JBool True),
                    (''message'',
                     JString (''Workflow run '' @ Number_toString e runId @ '' restarted''))])
   \<and> (validateOwnerName (maxIdentifierLength e) owner = Inr owner
        \<and> validateRepositoryName (maxIdentifierLength e) repo = Inr repo \<longrightarrow>
        triggerWorkflow e owner repo wid ref inputs =
          (case githubRequest e
                  (post (plainUrl (repos owner repo @ ''/actions/workflows/''
                            @ showWorkflowId (Number_toString e) wid @ ''/dispatches''))
               (Some (triggerWorkflowBody ref inputs))) of
             Inl x \<Rightarrow> Inl x
           | Inr v \<Rightarrow>
               Inr (JObject [(''success'', JBool True),
                    (''message'',
                     JString (''Workflow '' @ showWorkflowId (Number_toString e) wid
                                @ '' triggered on '' @ ref))]),
           [post (plainUrl (repos owner repo @ ''/actions/workflows/''
                            @ showWorkflowId (Number_toString e) wid @ ''/dispatches''))
               (Some (triggerWorkflowBody ref inputs))])
        \<and> cancelWorkflowRun e owner repo runId =
          (case githubRequest e
                  (post (plainUrl (repos owner repo @ ''/actions/runs/''
                            @ Number_toString e runId @ ''/cancel'')) None) of
             Inl x \<Rightarrow> Inl x
           | Inr v \<Rightarrow>
               Inr (JObject [(''success'', JBool True),
                    (''message'',
                     JString (''Workflow run '' @ Number_toString e runId @ '' cancelled''))]),
           [post (plainUrl (repos owner repo @ ''/actions/runs/''
                            @ Number_toString e runId @ ''/cancel'')) None])
        \<and> rerunWorkflowRun e owner repo runId =
          (case githubRequest e
                  (post (plainUrl (repos owner repo @ ''/actions/runs/''
                            @ Number_toString e runId @ ''/rerun'')) None) of
             Inl x \<Rightarrow> Inl x
           | Inr v \<Rightarrow>
               Inr (JObject [(''success'', JBool True),
                    (''message'',
                     JString (''Workflow run '' @ Number_toString e runId @ '' restarted''))]),
           [post (plainUrl (repos owner repo @ ''/actions/runs/''
                            @ Number_toString e runId @ ''/rerun'')) None]))
   \<and> ((\<exists>x. validateOwnerName (maxIdentifierLength e) owner = Inl x)
        \<or> (\<exists>x. validateRepositoryName (maxIdentifierLength e) repo = Inl x) \<longrightarrow>
        (\<exists>m v. triggerWorkflow e owner repo wid ref inputs =
                  (Inl (GitHubExn (GitHubValidationError m v)), [])
               \<and> cancelWorkflowRun e owner repo runId =
                  (Inl (GitHubExn (GitHubValidationError m v)), [])
               \<and> rerunWorkflowRun e owner repo runId =
                  (Inl (GitHubExn (GitHubValidationError m v)), [])))
   \<and> ((\<forall>rq x. githubRequest e rq = Inl x \<longrightarrow> (\<exists>g. x = GitHubExn g)) \<longrightarrow>
        (\<forall>x. fst (triggerWorkflow e owner repo wid ref inputs) = Inl x
              \<or> fst (cancelWorkflowRun e owner repo runId) = Inl x
              \<or> fst (rerunWorkflowRun e owner repo runId) = Inl x \<longrightarrow>
            (\<exists>g. x = GitHubExn g)))"
proof -
  have returned1:
    "triggerWorkflow e owner repo wid ref inputs = (Inr r1, reqs1) \<longrightarrow>
      r1 = JObject [(''success'', JBool True),
                    (''message'',
                     JString (''Workflow '' @ showWorkflowId (Number_toString e) wid
                                @ '' triggered on '' @ ref))]"
    using triggerWorkflow_result [of e owner repo wid ref inputs] by auto
  have returned2:
    "cancelWorkflowRun e owner repo runId = (Inr r2, reqs2) \<longrightarrow>
      r2 = JObject [(''success'', JBool True),
                    (''message'',
                     JString (''Workflow run '' @ Number_toString e runId @ '' cancelled''))]"
    using cancelWorkflowRun_result [of e owner repo runId] by auto
  have returned3:
    "rerunWorkflowRun e owner repo runId = (Inr r3, reqs3) \<longrightarrow>
      r3 = JObject [(''success'', JBool True),
                    (''message'',
                     JString (''Workflow run '' @ Number_toString e runId @ '' restarted''))]"
    using rerunWorkflowRun_result [of e owner repo runId] by auto
  have passed:
    "validateOwnerName (maxIdentifierLength e) owner = Inr owner
        \<and> validateRepositoryName (maxIdentifierLength e) repo = Inr repo \<longrightarrow>
        triggerWorkflow e owner repo wid ref inputs =
          (case githubRequest e
                  (post (plainUrl (repos owner repo @ ''/actions/workflows/''
                            @ showWorkflowId (Number_toString e) wid @ ''/dispatches''))
               (Some (triggerWorkflowBody ref inputs))) of
             Inl x \<Rightarrow> Inl x
           | Inr v \<Rightarrow>
               Inr (JObject [(''success'', JBool True),
                    (''message'',
                     JString (''Workflow '' @ showWorkflowId (Number_toString e) wid
                                @ '' triggered on '' @ ref))]),
           [post (plainUrl (repos owner repo @ ''/actions/workflows/''
                            @ showWorkflowId (Number_toString e) wid @ ''/dispatches''))
               (Some (triggerWorkflowBody ref inputs))])
        \<and> cancelWorkflowRun e owner repo runId =
          (case githubRequest e
                  (post (plainUrl (repos owner repo @ ''/actions/runs/''
                            @ Number_toString e runId @ ''/cancel'')) None) of
             Inl x \<Rightarrow> Inl x
           | Inr v \<Rightarrow>
               Inr (JObject [(''success'', JBool True),
                    (''message'',
                     JString (''Workflow run '' @ Number_toString e runId @ '' cancelled''))]),
           [post (plainUrl (repos owner repo @ ''/actions/runs/''
                            @ Number_toString e runId @ ''/cancel'')) None])
        \<and> rerunWorkflowRun e owner repo runId =
          (case githubRequest e
                  (post (plainUrl (repos owner repo @ ''/actions/runs/''
                            @ Number_toString e runId @ ''/rerun'')) None) of
             Inl x \<Rightarrow> Inl x
           | Inr v \<Rightarrow>
               Inr (JObject [(''success'', JBool True),
                    (''message'',
                     JString (''Workflow run '' @ Number_toString e runId @ '' restarted''))]),
           [post (plainUrl (repos owner repo @ ''/actions/runs/''
                            @ Number_toString e runId @ ''/rerun'')) None])"
    by (simp add: triggerWorkflow_def cancelWorkflowRun_def rerunWorkflowRun_def
          validated_passes await_githubRequest_def split: sum.splits)
  have rejected:
    "(\<exists>x. validateOwnerName (maxIdentifierLength e) owner = Inl x)
        \<or> (\<exists>x. validateRepositoryName (maxIdentifierLength e) repo = Inl x) \<longrightarrow>
        (\<exists>m v. triggerWorkflow e owner repo wid ref inputs =
                  (Inl (GitHubExn (GitHubValidationError m v)), [])
               \<and> cancelWorkflowRun e owner repo runId =
                  (Inl (GitHubExn (GitHubValidationError m v)), [])
               \<and> rerunWorkflowRun e owner repo runId =
                  (Inl (GitHubExn (GitHubValidationError m v)), []))"
  proof
    assume "(\<exists>x. validateOwnerName (maxIdentifierLength e) owner = Inl x)
        \<or> (\<exists>x. validateRepositoryName (maxIdentifierLength e) repo = Inl x)"
    from validated_rejects [OF this]
    obtain m v where "\<And>k :: string \<Rightarrow> string \<Rightarrow> jsvalue io.
       validated e owner repo k = (Inl (GitHubExn (GitHubValidationError m v)), [])"
      by blast
    then have "triggerWorkflow e owner repo wid ref inputs =
                  (Inl (GitHubExn (GitHubValidationError m v)), [])
               \<and> cancelWorkflowRun e owner repo runId =
                  (Inl (GitHubExn (GitHubValidationError m v)), [])
               \<and> rerunWorkflowRun e owner repo runId =
                  (Inl (GitHubExn (GitHubValidationError m v)), [])"
      by (simp add: triggerWorkflow_def cancelWorkflowRun_def rerunWorkflowRun_def)
    then show "\<exists>m v. triggerWorkflow e owner repo wid ref inputs =
                  (Inl (GitHubExn (GitHubValidationError m v)), [])
               \<and> cancelWorkflowRun e owner repo runId =
                  (Inl (GitHubExn (GitHubValidationError m v)), [])
               \<and> rerunWorkflowRun e owner repo runId =
                  (Inl (GitHubExn (GitHubValidationError m v)), [])"
      by blast
  qed
  have classified:
    "(\<forall>rq x. githubRequest e rq = Inl x \<longrightarrow> (\<exists>g. x = GitHubExn g)) \<longrightarrow>
        (\<forall>x. fst (triggerWorkflow e owner repo wid ref inputs) = Inl x
              \<or> fst (cancelWorkflowRun e owner repo runId) = Inl x
              \<or> fst (rerunWorkflowRun e owner repo runId) = Inl x \<longrightarrow>
            (\<exists>g. x = GitHubExn g))"
    using triggerWorkflow_raises_classified [of e owner repo wid ref inputs]
      cancelWorkflowRun_raises_classified [of e owner repo runId]
      rerunWorkflowRun_raises_classified [of e owner repo runId]
    by blast
  show ?thesis
    by (intro conjI; fact)
qed

lemma allowed_octocat: "list_all allowedChar ''octocat''"
  by (simp add: allowedChar_def)

lemma validate_octocat: "validateOwnerName 100 ''octocat'' = Inr ''octocat''"
  by (simp add: validateOwnerName_def allowedChar_def)

lemma validate_hello_world: "validateRepositoryName 100 ''hello-world'' = Inr ''hello-world''"
  by (simp add: validateRepositoryName_def allowedChar_def)

lemma exampleEnv_simps:
  "maxIdentifierLength (exampleEnv t p) = 100"
  "githubRequest (exampleEnv t p) rq = Inr (JString t)"
  "schemaParse (exampleEnv t p) sch v = Inr v"
  "yaml_load (exampleEnv t p) y = p"
  "JSON_stringify (exampleEnv t p) v = ''<json>''"
  "Number_toString (exampleEnv t p) = showInt"
  by (simp_all add: exampleEnv_def)

lemma failingEnv_simps:
  "maxIdentifierLength (failingEnv x) = 100"
  "githubRequest (failingEnv x) rq = Inl x"
  "Number_toString (failingEnv x) = showInt"
  by (simp_all add: failingEnv_def)

text \<open>
  The three operations on a network that answers, on a network that fails every request
  with \<^verbatim>\<open>404 Not Found\<close>, and with an empty owner name: the
  record, the error of the request thrown as it is, and the validation error.
\<close>

theorem action_results_witness:
  "triggerWorkflow (exampleEnv [] (Inr JNull)) ''octocat'' ''hello-world''
       (WorkflowName ''ci.yml'') ''main'' None
     = (Inr (JObject [(''success'', JBool True),
                      (''message'', JString ''Workflow ci.yml triggered on main'')]),
        [post (plainUrl (''https://api.github.com/repos/octocat/hello-world''
                           @ ''/actions/workflows/ci.yml/dispatches''))
              (Some (JObject [(''ref'', JString ''main'')]))])
   \<and> cancelWorkflowRun (exampleEnv [] (Inr JNull)) ''octocat'' ''hello-world'' 42
     = (Inr (JObject [(''success'', JBool True),
                      (''message'', JString ''Workflow run 42 cancelled'')]),
        [post (plainUrl (''https://api.github.com/repos/octocat/hello-world''
                           @ ''/actions/runs/42/cancel'')) None])
   \<and> rerunWorkflowRun (exampleEnv [] (Inr JNull)) ''octocat'' ''hello-world'' 42
     = (Inr (JObject [(''success'', JBool True),
                      (''message'', JString ''Workflow run 42 restarted'')]),
        [post (plainUrl (''https://api.github.com/repos/octocat/hello-world''
                           @ ''/actions/runs/42/rerun'')) None])
   \<and> triggerWorkflow (failingEnv (GitHubExn (GitHubResourceNotFoundError ''Not Found'')))
       ''octocat'' ''hello-world'' (WorkflowNumber 7) ''main'' None
     = (Inl (GitHubExn (GitHubResourceNotFoundError ''Not Found'')),
        [post (plainUrl (''https://api.github.com/repos/octocat/hello-world''
                           @ ''/actions/workflows/7/dispatches''))
              (Some (JObject [(''ref'', JString ''main'')]))])
   \<and> cancelWorkflowRun (failingEnv (GitHubExn (GitHubResourceNotFoundError ''Not Found'')))
       ''octocat'' ''hello-world'' 42
     = (Inl (GitHubExn (GitHubResourceNotFoundError ''Not Found'')),
        [post (plainUrl (''https://api.github.com/repos/octocat/hello-world''
                           @ ''/actions/runs/42/cancel'')) None])
   \<and> rerunWorkflowRun (failingEnv (GitHubExn (GitHubResourceNotFoundError ''Not Found'')))
       ''octocat'' ''hello-world'' 42
     = (Inl (GitHubExn (GitHubResourceNotFoundError ''Not Found'')),
        [post (plainUrl (''https://api.github.com/repos/octocat/hello-world''
                           @ ''/actions/runs/42/rerun'')) None])
   \<and> triggerWorkflow (exampleEnv [] (Inr JNull)) [] ''hello-world''
       (WorkflowName ''ci.yml'') ''main'' None
     = (Inl (GitHubExn (GitHubValidationError ''Owner name cannot be empty'' (JString []))), [])
   \<and> cancelWorkflowRun (exampleEnv [] (Inr JNull)) [] ''hello-world'' 42
     = (Inl (GitHubExn (GitHubValidationError ''Owner name cannot be empty'' (JString []))), [])
   \<and> rerunWorkflowRun (exampleEnv [] (Inr JNull)) [] ''hello-world'' 42
     = (Inl (GitHubExn (GitHubValidationError ''Owner name cannot be empty'' (JString []))), [])"
proof -
  let ?ok = "exampleEnv [] (Inr JNull)"
  let ?down = "failingEnv (GitHubExn (GitHubResourceNotFoundError ''Not Found''))"
  have valid_ok:
    "validateOwnerName (maxIdentifierLength ?ok) ''octocat'' = Inr ''octocat''
     \<and> validateRepositoryName (maxIdentifierLength ?ok) ''hello-world'' = Inr ''hello-world''"
    by (simp add: exampleEnv_simps validate_octocat validate_hello_world)
  have valid_down:
    "validateOwnerName (maxIdentifierLength ?down) ''octocat'' = Inr ''octocat''
     \<and> validateRepositoryName (maxIdentifierLength ?down) ''hello-world'' = Inr ''hello-world''"
    by (simp add: failingEnv_simps validate_octocat validate_hello_world)
  have classified_down:
    "\<forall>rq x. githubRequest ?down rq = Inl x \<longrightarrow> (\<exists>g. x = GitHubExn g)"
    by (simp add: failingEnv_simps)
  have no_owner:
    "(\<exists>x. validateOwnerName (maxIdentifierLength ?ok) [] = Inl x)
     \<or> (\<exists>x. validateRepositoryName (maxIdentifierLength ?ok) ''hello-world'' = Inl x)"
    by (simp add: validateOwnerName_def)
  note answered =
    action_results [where e = ?ok and owner = "''octocat''" and repo = "''hello-world''"
      and wid = "WorkflowName ''ci.yml''" and ref = "''main''" and inputs = None
      and runId = 42,
      THEN conjunct2, THEN conjunct2, THEN conjunct2, THEN conjunct1, rule_format,
      OF valid_ok]
  note failed =
    action_results [where e = ?down and owner = "''octocat''" and repo = "''hello-world''"
      and wid = "WorkflowNumber 7" and ref = "''main''" and inputs = None and runId = 42,
      THEN conjunct2, THEN conjunct2, THEN conjunct2, THEN conjunct1, rule_format,
      OF valid_down]
  note classified =
    action_results [where e = ?down and owner = "''octocat''" and repo = "''hello-world''"
      and wid = "WorkflowNumber 7" and ref = "''main''" and inputs = None and runId = 42,
      THEN conjunct2, THEN conjunct2, THEN conjunct2, THEN conjunct2, THEN conjunct2,
      THEN mp, OF classified_down]
  note rejected =
    action_results [where e = ?ok and owner = "[]" and repo = "''hello-world''"
      and wid = "WorkflowName ''ci.yml''" and ref = "''main''" and inputs = None
      and runId = 42,
      THEN conjunct2, THEN conjunct2, THEN conjunct2, THEN conjunct2, THEN conjunct1,
      rule_format, OF no_owner]
  show ?thesis
    using answered failed classified rejected
    by (simp add: exampleEnv_simps failingEnv_simps triggerWorkflowBody_def repos_def
          showInt_def showNat.simps triggerWorkflow_def cancelWorkflowRun_def
          rerunWorkflowRun_def validated_def validateOwnerName_def)
qed

section \<open>The body of a workflow dispatch\<close>

lemma triggerWorkflow_requests:
  "snd (triggerWorkflow e owner repo wid ref inputs) = []
   \<or> snd (triggerWorkflow e owner repo wid ref inputs) =
        [post (plainUrl (repos owner repo @ ''/actions/workflows/'' @ showWorkflowId (Number_toString e) wid @ ''/dispatches''))
              (Some (triggerWorkflowBody ref inputs))]"
  by (simp add: triggerWorkflow_def validated_def await_githubRequest_def
        validateOwnerName_def validateRepositoryName_def split: sum.splits)

lemma triggerWorkflow_requests_accepted:
  assumes "validateOwnerName (maxIdentifierLength e) owner = Inr owner"
    and "validateRepositoryName (maxIdentifierLength e) repo = Inr repo"
  shows "snd (triggerWorkflow e owner repo wid ref inputs) =
        [post (plainUrl (repos owner repo @ ''/actions/workflows/'' @ showWorkflowId (Number_toString e) wid @ ''/dispatches''))
              (Some (triggerWorkflowBody ref inputs))]"
  using assms
  by (simp add: triggerWorkflow_def validated_def await_githubRequest_def split: sum.splits)

text \<open>
  Claim C4. Every request \<^verbatim>\<open>triggerWorkflow\<close> hands to \<^verbatim>\<open>githubRequest\<close> carries the
  body built from \<^verbatim>\<open>ref\<close> and \<^verbatim>\<open>inputs\<close>, and there is such a request whenever owner
  and repository pass validation. With \<^verbatim>\<open>inputs\<close> absent or empty the body is
  \<^verbatim>\<open>{ ref }\<close> alone, without an \<^verbatim>\<open>inputs\<close> field; with a non-empty mapping it is
  \<^verbatim>\<open>{ ref, inputs }\<close> with the mapping as given.
\<close>

theorem triggerWorkflow_body:
  "(\<forall>rq \<in> set (snd (triggerWorkflow e owner repo wid ref inputs)).
      body rq = Some (triggerWorkflowBody ref inputs))
   \<and> (validateOwnerName (maxIdentifierLength e) owner = Inr owner
        \<and> validateRepositoryName (maxIdentifierLength e) repo = Inr repo \<longrightarrow>
      (\<exists>rq. snd (triggerWorkflow e owner repo wid ref inputs) = [rq]))
   \<and> (inputs = None \<or> inputs = Some [] \<longrightarrow>
      triggerWorkflowBody ref inputs = JObject [(''ref'', JString ref)])
   \<and> (inputs = Some kvs \<and> kvs \<noteq> [] \<longrightarrow>
      triggerWorkflowBody ref inputs =
        JObject [(''ref'', JString ref), (''inputs'', JObject (map (\<lambda>(k, v). (k, JString v)) kvs))])"
proof -
  have "\<forall>rq \<in> set (snd (triggerWorkflow e owner repo wid ref inputs)).
      body rq = Some (triggerWorkflowBody ref inputs)"
    using triggerWorkflow_requests [of e owner repo wid ref inputs]
    by (auto simp add: post_def)
  moreover have "validateOwnerName (maxIdentifierLength e) owner = Inr owner
        \<and> validateRepositoryName (maxIdentifierLength e) repo = Inr repo \<longrightarrow>
      (\<exists>rq. snd (triggerWorkflow e owner repo wid ref inputs) = [rq])"
    using triggerWorkflow_requests_accepted [of e owner repo wid ref inputs] by simp
  moreover have "inputs = None \<or> inputs = Some [] \<longrightarrow>
      triggerWorkflowBody ref inputs = JObject [(''ref'', JString ref)]"
    by (auto simp add: triggerWorkflowBody_def)
  moreover have "inputs = Some kvs \<and> kvs \<noteq> [] \<longrightarrow>
      triggerWorkflowBody ref inputs =
        JObject [(''ref'', JString ref), (''inputs'', JObject (map (\<lambda>(k, v). (k, JString v)) kvs))]"
    by (simp add: triggerWorkflowBody_def recordToJs_def)
  ultimately show ?thesis by blast
qed

theorem triggerWorkflow_body_witness:
  "snd (triggerWorkflow (exampleEnv [] (Inr JNull)) ''octocat'' ''hello-world''
          (WorkflowName ''deploy.yml'') ''main'' (Some [])) =
     [post (plainUrl ''https://api.github.com/repos/octocat/hello-world/actions/workflows/deploy.yml/dispatches'')
           (Some (JObject [(''ref'', JString ''main'')]))]
   \<and> snd (triggerWorkflow (exampleEnv [] (Inr JNull)) ''octocat'' ''hello-world''
          (WorkflowName ''deploy.yml'') ''main'' None) =
     [post (plainUrl ''https://api.github.com/repos/octocat/hello-world/actions/workflows/deploy.yml/dispatches'')
           (Some (JObject [(''ref'', JString ''main'')]))]
   \<and> snd (triggerWorkflow (exampleEnv [] (Inr JNull)) ''octocat'' ''hello-world''
          (WorkflowName ''deploy.yml'') ''main'' (Some [(''environment'', ''prod'')])) =
     [post (plainUrl ''https://api.github.com/repos/octocat/hello-world/actions/workflows/deploy.yml/dispatches'')
           (Some (JObject [(''ref'', JString ''main''),
                           (''inputs'', JObject [(''environment'', JString ''prod'')])]))]"
  using triggerWorkflow_body [of "exampleEnv [] (Inr JNull)" "''octocat''" "''hello-world''"
          "WorkflowName ''deploy.yml''" "''main''" "Some [(''environment'', ''prod'')]"
          "[(''environment'', ''prod'')]"]
  by (simp add: triggerWorkflow_def validated_def await_githubRequest_def exampleEnv_simps
        validate_octocat validate_hello_world triggerWorkflowBody_def recordToJs_def repos_def)

section \<open>The query of \<^verbatim>\<open>listWorkflowRuns\<close>\<close>













section \<open>The validators\<close>

lemma not_allowed_slash: "\<not> allowedChar CHR ''/''"
  by (simp add: allowedChar_def)

lemma not_allowed_space: "\<not> allowedChar CHR '' ''"
  by (simp add: allowedChar_def)

lemma allowed_my_org: "list_all allowedChar ''my-org_2.bot''"
  by (simp add: allowedChar_def)

text \<open>
  Claim C3. The owner-name and the repository-name validator each fail exactly when the
  name is empty, longer than the maximum identifier length \<open>n\<close>, or contains a
  character outside \<^verbatim>\<open>[A-Za-z0-9-_.]\<close>, and then with a \<open>Validation\<close> error that
  carries the rejected name. So they reject the empty string, every string with a
  \<^verbatim>\<open>/\<close> or a space and, the maximum being below 200, every string of 200 or more
  characters; they accept \<^verbatim>\<open>octocat\<close> and \<^verbatim>\<open>my-org_2.bot\<close> (a maximum of at least 7
  and 12). Every tool validates owner and repository first: if either is rejected the
  call throws that \<open>Validation\<close> error and no request has been handed to
  \<^verbatim>\<open>githubRequest\<close>.
\<close>

theorem validators_reject_exactly:
  "((\<exists>x. validateOwnerName n s = Inl x) \<longleftrightarrow>
      s = [] \<or> n < length s \<or> (\<exists>c\<in>set s. \<not> allowedChar c))
   \<and> ((\<exists>x. validateRepositoryName n s = Inl x) \<longleftrightarrow>
      s = [] \<or> n < length s \<or> (\<exists>c\<in>set s. \<not> allowedChar c))
   \<and> (validateOwnerName n s = Inr s
        \<or> (\<exists>m. validateOwnerName n s = Inl (GitHubExn (GitHubValidationError m (JString s)))))
   \<and> (validateRepositoryName n s = Inr s
        \<or> (\<exists>m. validateRepositoryName n s =
                  Inl (GitHubExn (GitHubValidationError m (JString s)))))
   \<and> (s = [] \<or> CHR ''/'' \<in> set s \<or> CHR '' '' \<in> set s \<or> (n < 200 \<and> 200 \<le> length s) \<longrightarrow>
        (\<exists>x. validateOwnerName n s = Inl x) \<and> (\<exists>x. validateRepositoryName n s = Inl x))
   \<and> (7 \<le> n \<longrightarrow>
        validateOwnerName n ''octocat'' = Inr ''octocat''
        \<and> validateRepositoryName n ''octocat'' = Inr ''octocat'')
   \<and> (12 \<le> n \<longrightarrow>
        validateOwnerName n ''my-org_2.bot'' = Inr ''my-org_2.bot''
        \<and> validateRepositoryName n ''my-org_2.bot'' = Inr ''my-org_2.bot'')
   \<and> ((\<exists>x. validateOwnerName (maxIdentifierLength e) (requestOwner call) = Inl x)
        \<or> (\<exists>x. validateRepositoryName (maxIdentifierLength e) (requestRepo call) = Inl x) \<longrightarrow>
        (\<exists>m v. callTool e call = (Inl (GitHubExn (GitHubValidationError m v)), [])))"
proof -
  have rejected: "s = [] \<or> CHR ''/'' \<in> set s \<or> CHR '' '' \<in> set s \<or> (n < 200 \<and> 200 \<le> length s) \<longrightarrow>
        (\<exists>x. validateOwnerName n s = Inl x) \<and> (\<exists>x. validateRepositoryName n s = Inl x)"
    unfolding validateOwnerName_fails_iff validateRepositoryName_fails_iff
    using not_allowed_slash not_allowed_space by auto
  have octocat: "7 \<le> n \<longrightarrow>
        validateOwnerName n ''octocat'' = Inr ''octocat''
        \<and> validateRepositoryName n ''octocat'' = Inr ''octocat''"
    using allowed_octocat by (simp add: validateOwnerName_def validateRepositoryName_def)
  have my_org: "12 \<le> n \<longrightarrow>
        validateOwnerName n ''my-org_2.bot'' = Inr ''my-org_2.bot''
        \<and> validateRepositoryName n ''my-org_2.bot'' = Inr ''my-org_2.bot''"
    using allowed_my_org by (simp add: validateOwnerName_def validateRepositoryName_def)
  have tools: "(\<exists>x. validateOwnerName (maxIdentifierLength e) (requestOwner call) = Inl x)
        \<or> (\<exists>x. validateRepositoryName (maxIdentifierLength e) (requestRepo call) = Inl x) \<longrightarrow>
        (\<exists>m v. callTool e call = (Inl (GitHubExn (GitHubValidationError m v)), []))"
    using callTool_rejects [of e call] by blast
  from validateOwnerName_fails_iff [of n s] validateRepositoryName_fails_iff [of n s]
    validateOwnerName_result [of n s] validateRepositoryName_result [of n s]
    rejected octocat my_org tools
  show ?thesis by blast
qed

theorem validators_reject_exactly_witness:
  "validateOwnerName 100 ''octo/cat'' =
     Inl (GitHubExn (GitHubValidationError ''Owner name contains invalid characters''
            (JString ''octo/cat'')))
   \<and> validateRepositoryName 100 ''hello world'' =
     Inl (GitHubExn (GitHubValidationError ''Repository name contains invalid characters''
            (JString ''hello world'')))
   \<and> validateOwnerName 100 [] =
     Inl (GitHubExn (GitHubValidationError ''Owner name cannot be empty'' (JString [])))
   \<and> validateRepositoryName 100 (replicate 200 CHR ''a'') =
     Inl (GitHubExn (GitHubValidationError ''Repository name is too long''
            (JString (replicate 200 CHR ''a''))))
   \<and> validateOwnerName 100 ''octocat'' = Inr ''octocat''
   \<and> validateRepositoryName 100 ''my-org_2.bot'' = Inr ''my-org_2.bot''
   \<and> callTool (exampleEnv [] (Inr JNull))
        (trigger_workflow ''octo/cat'' ''hello-world'' ''ci.yml'' ''main'' None) =
     (Inl (GitHubExn (GitHubValidationError ''Owner name contains invalid characters''
             (JString ''octo/cat''))), [])
   \<and> callTool (exampleEnv [] (Inr JNull))
        (get_workflow_dispatch_inputs ''octocat'' ''hello world'' ''ci.yml'') =
     (Inl (GitHubExn (GitHubValidationError ''Repository name contains invalid characters''
             (JString ''hello world''))), [])"
  using validators_reject_exactly [of 100 "''octo/cat''" "exampleEnv [] (Inr JNull)"
          "trigger_workflow ''octo/cat'' ''hello-world'' ''ci.yml'' ''main'' None"]
  by (simp add: validateOwnerName_def validateRepositoryName_def allowedChar_def
        triggerWorkflow_def getWorkflowDispatchInputs_def getWorkflowYaml_def validated_def
        textContent_def exampleEnv_simps)

section \<open>The classification table\<close>

text \<open>
  Claim C1. The classifier assigns one kind to every failed call. For a call that got a
  response (no transport failure, no deadline exceeded): 401 is \<open>Authentication\<close>;
  403 or 429 with a rate-limit reset header is \<open>RateLimit\<close>; 403 without one is
  \<open>Permission\<close>; 404 is \<open>ResourceNotFound\<close>; 409 is \<open>Conflict\<close>; every other
  status, and a call without a status, is \<open>Generic\<close>.
\<close>

theorem classify_table:
  "(\<exists>!k. classify h c = k)
   \<and> (\<not> transportFailure c \<and> \<not> elapsedExceededDeadline c \<longrightarrow>
        (statusCode c = Some 401 \<longrightarrow> classify h c = Authentication)
      \<and> ((statusCode c = Some 403 \<or> statusCode c = Some 429)
           \<and> indicatesRateLimitReset h (responseHeaders c) \<longrightarrow> classify h c = RateLimit)
      \<and> (statusCode c = Some 403 \<and> \<not> indicatesRateLimitReset h (responseHeaders c) \<longrightarrow>
           classify h c = Permission)
      \<and> (statusCode c = Some 404 \<longrightarrow> classify h c = ResourceNotFound)
      \<and> (statusCode c = Some 409 \<longrightarrow> classify h c = Conflict)
      \<and> (\<forall>s. statusCode c = Some s \<and> s \<noteq> 401 \<and> s \<noteq> 403 \<and> s \<noteq> 404 \<and> s \<noteq> 409
               \<and> \<not> (s = 429 \<and> indicatesRateLimitReset h (responseHeaders c)) \<longrightarrow>
             classify h c = Generic)
      \<and> (statusCode c = None \<longrightarrow> classify h c = Generic))"
proof -
  have "\<exists>!k. classify h c = k" by simp
  moreover have "\<not> transportFailure c \<and> \<not> elapsedExceededDeadline c \<longrightarrow>
        (statusCode c = Some 401 \<longrightarrow> classify h c = Authentication)
      \<and> ((statusCode c = Some 403 \<or> statusCode c = Some 429)
           \<and> indicatesRateLimitReset h (responseHeaders c) \<longrightarrow> classify h c = RateLimit)
      \<and> (statusCode c = Some 403 \<and> \<not> indicatesRateLimitReset h (responseHeaders c) \<longrightarrow>
           classify h c = Permission)
      \<and> (statusCode c = Some 404 \<longrightarrow> classify h c = ResourceNotFound)
      \<and> (statusCode c = Some 409 \<longrightarrow> classify h c = Conflict)
      \<and> (\<forall>s. statusCode c = Some s \<and> s \<noteq> 401 \<and> s \<noteq> 403 \<and> s \<noteq> 404 \<and> s \<noteq> 409
               \<and> \<not> (s = 429 \<and> indicatesRateLimitReset h (responseHeaders c)) \<longrightarrow>
             classify h c = Generic)
      \<and> (statusCode c = None \<longrightarrow> classify h c = Generic)"
    by (auto simp add: classify_def)
  ultimately show ?thesis by blast
qed

theorem classify_table_witness:
  "classify ''x-ratelimit-reset''
        \<lparr>statusCode = Some 401, responseHeaders = [(''x-ratelimit-reset'', ''1700000000'')], responseBody = JNull,
          transportFailure = False, elapsedExceededDeadline = False\<rparr> = Authentication
   \<and> classify ''x-ratelimit-reset''
        \<lparr>statusCode = Some 401, responseHeaders = [], responseBody = JNull,
          transportFailure = False, elapsedExceededDeadline = False\<rparr> = Authentication
   \<and> classify ''x-ratelimit-reset''
        \<lparr>statusCode = Some 403, responseHeaders = [(''x-ratelimit-reset'', ''1700000000'')], responseBody = JNull,
          transportFailure = False, elapsedExceededDeadline = False\<rparr> = RateLimit
   \<and> classify ''x-ratelimit-reset''
        \<lparr>statusCode = Some 403, responseHeaders = [], responseBody = JNull,
          transportFailure = False, elapsedExceededDeadline = False\<rparr> = Permission
   \<and> classify ''x-ratelimit-reset''
        \<lparr>statusCode = Some 404, responseHeaders = [(''x-ratelimit-reset'', ''1700000000'')], responseBody = JNull,
          transportFailure = False, elapsedExceededDeadline = False\<rparr> = ResourceNotFound
   \<and> classify ''x-ratelimit-reset''
        \<lparr>statusCode = Some 404, responseHeaders = [], responseBody = JNull,
          transportFailure = False, elapsedExceededDeadline = False\<rparr> = ResourceNotFound
   \<and> classify ''x-ratelimit-reset''
        \<lparr>statusCode = Some 409, responseHeaders = [(''x-ratelimit-reset'', ''1700000000'')], responseBody = JNull,
          transportFailure = False, elapsedExceededDeadline = False\<rparr> = Conflict
   \<and> classify ''x-ratelimit-reset''
        \<lparr>statusCode = Some 409, responseHeaders = [], responseBody = JNull,
          transportFailure = False, elapsedExceededDeadline = False\<rparr> = Conflict
   \<and> classify ''x-ratelimit-reset''
        \<lparr>statusCode = Some 429, responseHeaders = [(''x-ratelimit-reset'', ''1700000000'')], responseBody = JNull,
          transportFailure = False, elapsedExceededDeadline = False\<rparr> = RateLimit
   \<and> classify ''x-ratelimit-reset''
        \<lparr>statusCode = Some 429, responseHeaders = [], responseBody = JNull,
          transportFailure = False, elapsedExceededDeadline = False\<rparr> = Generic
   \<and> classify ''x-ratelimit-reset''
        \<lparr>statusCode = Some 500, responseHeaders = [], responseBody = JNull,
          transportFailure = False, elapsedExceededDeadline = False\<rparr> = Generic
   \<and> classify ''x-ratelimit-reset''
        \<lparr>statusCode = Some 422, responseHeaders = [(''x-ratelimit-reset'', ''1700000000'')], responseBody = JNull,
          transportFailure = False, elapsedExceededDeadline = False\<rparr> = Generic"
  using classify_table [of "''x-ratelimit-reset''"
          "\<lparr>statusCode = Some 429, responseHeaders = [(''x-ratelimit-reset'', ''1700000000'')], responseBody = JNull,
          transportFailure = False, elapsedExceededDeadline = False\<rparr>"]
  by (simp add: classify_def indicatesRateLimitReset_def)

section \<open>The dispatch inputs of a workflow\<close>

lemma getProp_truthy: "truthy v \<Longrightarrow> \<exists>w. getProp v k = Inr w"
  by (cases v) simp_all

lemma getProp_defined:
  "getProp v k = Inr w \<Longrightarrow> w \<noteq> JUndefined \<Longrightarrow> \<exists>kvs. v = JObject kvs \<and> map_of kvs k = Some w"
  by (cases v) (auto split: option.splits)

lemma lookupPath_step:
  "lookupPath v (k # ks) = Some w \<longleftrightarrow>
     (\<exists>kvs u. v = JObject kvs \<and> map_of kvs k = Some u \<and> lookupPath u ks = Some w)"
  by (cases v) (auto split: option.splits)

lemma lookupPath_getPath: "lookupPath v ks = Some w \<Longrightarrow> getPath v ks = Inr w"
proof (induction ks arbitrary: v)
  case Nil
  then show ?case by simp
next
  case (Cons k ks)
  then obtain kvs u where "v = JObject kvs" "map_of kvs k = Some u" "lookupPath u ks = Some w"
    unfolding lookupPath_step by blast
  with Cons.IH [of u] show ?case by simp
qed

lemma lookupPath_prefix_object:
  "lookupPath v (ks @ [k]) = Some w \<Longrightarrow> \<exists>kvs. lookupPath v ks = Some (JObject kvs)"
proof (induction ks arbitrary: v)
  case Nil
  then show ?case unfolding append_Nil lookupPath_step by auto
next
  case (Cons a ks)
  then show ?case unfolding append_Cons lookupPath_step by auto
qed

text \<open>The condition yields the declared inputs when the path is there.\<close>

lemma hasDispatchInputs_present:
  assumes "lookupPath doc [''on'', ''workflow_dispatch'', ''inputs''] = Some v"
  shows "hasDispatchInputs doc = Inr v"
proof -
  from assms obtain w where w: "lookupPath doc [''on'', ''workflow_dispatch''] = Some (JObject w)"
    using lookupPath_prefix_object [of doc "[''on'', ''workflow_dispatch'']" "''inputs''" v] by auto
  then obtain o' where o: "lookupPath doc [''on''] = Some (JObject o')"
    using lookupPath_prefix_object [of doc "[''on'']" "''workflow_dispatch''" "JObject w"] by auto
  then obtain d where d: "doc = JObject d"
    unfolding lookupPath_step by blast
  have g1: "getPath doc [''on''] = Inr (JObject o')"
    using o by (rule lookupPath_getPath)
  have g2: "getPath doc [''on'', ''workflow_dispatch''] = Inr (JObject w)"
    using w by (rule lookupPath_getPath)
  have g3: "getPath doc [''on'', ''workflow_dispatch'', ''inputs''] = Inr v"
    using assms by (rule lookupPath_getPath)
  from d have "truthy doc" by simp
  then show ?thesis
    unfolding hasDispatchInputs_def g1 g2 g3 by (simp add: jsAnd_def)
qed

lemma findDispatchInputs_present:
  assumes "lookupPath doc [''on'', ''workflow_dispatch'', ''inputs''] = Some v"
  shows "findDispatchInputs doc = Inr (if truthy v then v else JUndefined)"
  unfolding findDispatchInputs_def hasDispatchInputs_present [OF assms]
    lookupPath_getPath [OF assms]
  by simp

text \<open>Without the path, the condition is falsy, and nothing is thrown on the way.\<close>

lemma getPath_snoc:
  "getPath v (ks @ [k]) = (case getPath v ks of Inl x \<Rightarrow> Inl x | Inr w \<Rightarrow> getProp w k)"
  by (induction ks arbitrary: v) (auto split: sum.splits)

lemma getPath_defined_lookupPath:
  "getPath v ks = Inr w \<Longrightarrow> w \<noteq> JUndefined \<Longrightarrow> ks \<noteq> [] \<Longrightarrow> lookupPath v ks = Some w"
proof (induction ks arbitrary: v)
  case Nil
  then show ?case by simp
next
  case (Cons k ks)
  from Cons.prems(1) obtain u where u: "getProp v k = Inr u" "getPath u ks = Inr w"
    by (auto split: sum.splits)
  show ?case
  proof (cases "ks = []")
    case True
    with u have "u = w" by simp
    with u Cons.prems(2) getProp_defined [of v k w]
    obtain kvs where "v = JObject kvs" "map_of kvs k = Some w" by auto
    with True show ?thesis by simp
  next
    case False
    with Cons.IH [of u] u Cons.prems(2) have l: "lookupPath u ks = Some w" by simp
    from False obtain k' ks' where "ks = k' # ks'" by (cases ks) auto
    with l have "lookupPath u (k' # ks') = Some w" by simp
    then obtain kvs' where "u = JObject kvs'" unfolding lookupPath_step by blast
    then have "u \<noteq> JUndefined" by simp
    with u getProp_defined [of v k u]
    obtain kvs where "v = JObject kvs" "map_of kvs k = Some u" by auto
    with l show ?thesis by simp
  qed
qed

lemma hasDispatchInputs_absent:
  assumes "lookupPath doc [''on'', ''workflow_dispatch'', ''inputs''] = None"
  shows "\<exists>u. hasDispatchInputs doc = Inr u \<and> \<not> truthy u"
proof (cases "truthy doc")
  case False
  then show ?thesis by (simp add: hasDispatchInputs_def jsAnd_def)
next
  case True
  then obtain o1 where o1: "getPath doc [''on''] = Inr o1"
    using getProp_truthy [of doc "''on''"] by auto
  show ?thesis
  proof (cases "truthy o1")
    case False
    with True o1 show ?thesis by (simp add: hasDispatchInputs_def jsAnd_def)
  next
    case t1: True
    then obtain o2 where p2: "getProp o1 ''workflow_dispatch'' = Inr o2"
      using getProp_truthy [of o1 "''workflow_dispatch''"] by auto
    with o1 have o2: "getPath doc [''on'', ''workflow_dispatch''] = Inr o2"
      using getPath_snoc [of doc "[''on'']" "''workflow_dispatch''"] by simp
    show ?thesis
    proof (cases "truthy o2")
      case False
      with True t1 o1 o2 show ?thesis
        unfolding hasDispatchInputs_def by (simp add: jsAnd_def)
    next
      case t2: True
      then obtain o3 where p3: "getProp o2 ''inputs'' = Inr o3"
        using getProp_truthy [of o2 "''inputs''"] by auto
      with o2 have o3: "getPath doc [''on'', ''workflow_dispatch'', ''inputs''] = Inr o3"
        using getPath_snoc [of doc "[''on'', ''workflow_dispatch'']" "''inputs''"] by simp
      have "o3 = JUndefined"
        using getPath_defined_lookupPath [OF o3] assms by auto
      with True t1 t2 o1 o2 o3 show ?thesis
        unfolding hasDispatchInputs_def by (simp add: jsAnd_def)
    qed
  qed
qed

lemma findDispatchInputs_absent:
  assumes "lookupPath doc [''on'', ''workflow_dispatch'', ''inputs''] = None"
  shows "findDispatchInputs doc = Inr JUndefined"
proof -
  from hasDispatchInputs_absent [OF assms]
  obtain u where "hasDispatchInputs doc = Inr u" "\<not> truthy u" by blast
  then show ?thesis by (simp add: findDispatchInputs_def)
qed

lemma findDispatchInputs_total: "\<exists>v. findDispatchInputs doc = Inr v"
proof (cases "lookupPath doc [''on'', ''workflow_dispatch'', ''inputs'']")
  case None
  then show ?thesis by (simp add: findDispatchInputs_absent)
next
  case (Some v)
  then show ?thesis by (simp add: findDispatchInputs_present)
qed

text \<open>The order of the properties of an object.\<close>

lemma arrayIndex_examples:
  "arrayIndex ''environment'' = None"
  "arrayIndex ''log_level'' = None"
  "arrayIndex ''description'' = None"
  "arrayIndex ''required'' = None"
  "arrayIndex ''default'' = None"
  "arrayIndex ''name'' = None"
  "arrayIndex ''2'' = Some 2"
  "arrayIndex ''10'' = Some 10"
  "arrayIndex ''9'' = Some 9"
  "arrayIndex ''0'' = Some 0"
  "arrayIndex ''007'' = None"
  "arrayIndex ''4294967294'' = Some 4294967294"
  "arrayIndex ''4294967295'' = None"
  "arrayIndex '''' = None"
  by (simp_all add: arrayIndex_def decimalValue_def digitValue_def)


lemma propertyRank_le: "propertyRank k \<le> 4294967295"
  by (simp add: propertyRank_def arrayIndex_def)

lemma propertyRank_index: "arrayIndex k = Some i \<Longrightarrow> propertyRank k = i"
  by (simp add: propertyRank_def)

lemma propertyRank_named: "arrayIndex k = None \<Longrightarrow> propertyRank k = 4294967295"
  by (simp add: propertyRank_def)

lemma set_insertIndexed: "set (insertIndexed i p qs) = insert p (set qs)"
  by (induction qs) auto

lemma length_insertIndexed: "length (insertIndexed i p qs) = Suc (length qs)"
  by (induction qs) auto

lemma sorted_insertIndexed:
  "sorted (map (propertyRank \<circ> fst) qs) \<Longrightarrow> propertyRank (fst p) = i \<Longrightarrow>
   sorted (map (propertyRank \<circ> fst) (insertIndexed i p qs))"
  by (induction qs) (auto simp add: set_insertIndexed)

lemma named_insertIndexed:
  "arrayIndex (fst p) \<noteq> None \<Longrightarrow>
   filter (\<lambda>q. arrayIndex (fst q) = None) (insertIndexed i p qs)
     = filter (\<lambda>q. arrayIndex (fst q) = None) qs"
  by (induction qs) auto

lemma map_of_insertIndexed:
  "k \<notin> fst ` set qs \<Longrightarrow> map_of (insertIndexed i (k, v) qs) = (map_of qs)(k \<mapsto> v)"
proof (induction qs)
  case Nil
  then show ?case by simp
next
  case (Cons q qs)
  obtain k' v' where q: "q = (k', v')" by (cases q)
  with Cons.prems have "k \<noteq> k'" by auto
  with Cons q show ?case by (auto simp add: fun_upd_twist)
qed

text \<open>One assignment.\<close>

lemma keys_update: "fst ` set (AList.update k v ps) = insert k (fst ` set ps)"
proof -
  have "set (map fst (AList.update k v ps)) = insert k (set (map fst ps))"
    unfolding update_keys by auto
  then show ?thesis by simp
qed

lemma keys_setProperty: "fst ` set (setProperty k v ps) = insert k (fst ` set ps)"
proof (cases "k \<in> fst ` set ps")
  case True
  then show ?thesis by (simp add: setProperty_def keys_update)
next
  case False
  then show ?thesis
    by (simp add: setProperty_def set_insertIndexed split: option.splits)
qed

lemma map_of_snoc_fresh:
  "k \<notin> fst ` set ps \<Longrightarrow> map_of (ps @ [(k, v)]) = (map_of ps)(k \<mapsto> v)"
  by (induction ps) (auto simp add: fun_upd_twist)

lemma map_of_setProperty: "map_of (setProperty k v ps) = (map_of ps)(k \<mapsto> v)"
proof (cases "k \<in> fst ` set ps")
  case True
  then show ?thesis by (simp add: setProperty_def update_conv')
next
  case False
  then show ?thesis
    by (simp add: setProperty_def map_of_insertIndexed map_of_snoc_fresh
          del: map_of_append split: option.splits)
qed

lemma sorted_setProperty:
  "sorted (map (propertyRank \<circ> fst) ps) \<Longrightarrow>
   sorted (map (propertyRank \<circ> fst) (setProperty k v ps))"
proof (cases "k \<in> fst ` set ps")
  case True
  assume s: "sorted (map (propertyRank \<circ> fst) ps)"
  from True have "map fst (AList.update k v ps) = map fst ps"
    by (simp add: update_keys)
  then have "map (propertyRank \<circ> fst) (AList.update k v ps) = map (propertyRank \<circ> fst) ps"
    by (metis map_map)
  with s True show ?thesis by (simp add: setProperty_def)
next
  case False
  assume s: "sorted (map (propertyRank \<circ> fst) ps)"
  show ?thesis
  proof (cases "arrayIndex k")
    case None
    with False s propertyRank_le show ?thesis
      by (auto simp add: setProperty_def sorted_append propertyRank_named)
  next
    case (Some i)
    with False sorted_insertIndexed [OF s, of "(k, v)" i] show ?thesis
      by (simp add: setProperty_def propertyRank_index)
  qed
qed

lemma distinct_setProperty:
  "distinct (map fst ps) \<Longrightarrow> distinct (map fst (setProperty k v ps))"
proof (cases "k \<in> fst ` set ps")
  case True
  assume "distinct (map fst ps)"
  with True show ?thesis by (simp add: setProperty_def update_keys)
next
  case False
  assume d: "distinct (map fst ps)"
  have ins: "distinct (map fst (insertIndexed i (k, v) ps))" for i
    using d False by (induction ps) (auto simp add: set_insertIndexed)
  from False d ins show ?thesis
    by (auto simp add: setProperty_def split: option.splits)
qed

text \<open>A new property: the others keep their places.\<close>

lemma set_setProperty_fresh:
  "k \<notin> fst ` set ps \<Longrightarrow> set (setProperty k v ps) = insert (k, v) (set ps)"
  by (auto simp add: setProperty_def set_insertIndexed split: option.splits)

lemma length_setProperty_fresh:
  "k \<notin> fst ` set ps \<Longrightarrow> length (setProperty k v ps) = Suc (length ps)"
  by (auto simp add: setProperty_def length_insertIndexed split: option.splits)

lemma named_setProperty_fresh:
  "k \<notin> fst ` set ps \<Longrightarrow>
   filter (\<lambda>q. arrayIndex (fst q) = None) (setProperty k v ps)
     = filter (\<lambda>q. arrayIndex (fst q) = None) ps
         @ (if arrayIndex k = None then [(k, v)] else [])"
  by (auto simp add: setProperty_def named_insertIndexed split: option.splits)

text \<open>The spread, assignment after assignment.\<close>

lemma spread_Nil: "spread acc [] = acc"
  by (simp add: spread_def)

lemma spread_Cons: "spread acc ((k, v) # src) = spread (setProperty k v acc) src"
  by (simp add: spread_def)

lemma sorted_spread:
  "sorted (map (propertyRank \<circ> fst) acc) \<Longrightarrow>
   sorted (map (propertyRank \<circ> fst) (spread acc src))"
proof (induction src arbitrary: acc)
  case Nil
  then show ?case by (simp add: spread_Nil)
next
  case (Cons p src)
  obtain k v where p: "p = (k, v)" by (cases p)
  from Cons.prems have "sorted (map (propertyRank \<circ> fst) (setProperty k v acc))"
    by (rule sorted_setProperty)
  then show ?case unfolding p spread_Cons by (rule Cons.IH)
qed

lemma distinct_spread:
  "distinct (map fst acc) \<Longrightarrow> distinct (map fst (spread acc src))"
proof (induction src arbitrary: acc)
  case Nil
  then show ?case by (simp add: spread_Nil)
next
  case (Cons p src)
  obtain k v where p: "p = (k, v)" by (cases p)
  from Cons.prems have "distinct (map fst (setProperty k v acc))"
    by (rule distinct_setProperty)
  then show ?case unfolding p spread_Cons by (rule Cons.IH)
qed

lemma keys_spread: "fst ` set (spread acc src) = fst ` set acc \<union> fst ` set src"
proof (induction src arbitrary: acc)
  case Nil
  then show ?case by (simp add: spread_Nil)
next
  case (Cons p src)
  obtain k v where p: "p = (k, v)" by (cases p)
  show ?case unfolding p spread_Cons Cons.IH keys_setProperty by auto
qed

lemma map_of_spread:
  "distinct (map fst src) \<Longrightarrow> map_of (spread acc src) = map_of acc ++ map_of src"
proof (induction src arbitrary: acc)
  case Nil
  then show ?case by (simp add: spread_Nil)
next
  case (Cons p src)
  obtain k v where p: "p = (k, v)" by (cases p)
  from Cons.prems p have d: "distinct (map fst src)" and fresh: "k \<notin> fst ` set src"
    by auto
  from fresh have "map_of src k = None" by (simp add: map_of_eq_None_iff)
  then have "(map_of acc)(k \<mapsto> v) ++ map_of src = map_of acc ++ map_of ((k, v) # src)"
    by (auto simp add: map_add_def fun_eq_iff split: option.splits)
  then show ?case
    unfolding p spread_Cons Cons.IH [OF d] map_of_setProperty .
qed

text \<open>
  When the names spread are new to the object and differ from each other, every
  assignment creates a property.
\<close>

lemma spread_fresh:
  assumes "distinct (map fst src)" and "fst ` set src \<inter> fst ` set acc = {}"
  shows "set (spread acc src) = set acc \<union> set src"
    and "length (spread acc src) = length acc + length src"
    and "filter (\<lambda>q. arrayIndex (fst q) = None) (spread acc src)
           = filter (\<lambda>q. arrayIndex (fst q) = None) acc
               @ filter (\<lambda>q. arrayIndex (fst q) = None) src"
  using assms
proof (induction src arbitrary: acc)
  case Nil
  {
    case 1 show ?case by (simp add: spread_Nil)
  next
    case 2 show ?case by (simp add: spread_Nil)
  next
    case 3 show ?case by (simp add: spread_Nil)
  }
next
  case (Cons p src)
  obtain k v where p: "p = (k, v)" by (cases p)
  {
    case 1
    from 1 p have d: "distinct (map fst src)" and fresh: "k \<notin> fst ` set acc"
      and rest: "fst ` set src \<inter> fst ` set (setProperty k v acc) = {}"
      by (auto simp add: keys_setProperty)
    show ?case
      unfolding p spread_Cons Cons.IH(1) [OF d rest] set_setProperty_fresh [OF fresh]
      by auto
  next
    case 2
    from 2 p have d: "distinct (map fst src)" and fresh: "k \<notin> fst ` set acc"
      and rest: "fst ` set src \<inter> fst ` set (setProperty k v acc) = {}"
      by (auto simp add: keys_setProperty)
    show ?case
      unfolding p spread_Cons Cons.IH(2) [OF d rest] length_setProperty_fresh [OF fresh]
      by simp
  next
    case 3
    from 3 p have d: "distinct (map fst src)" and fresh: "k \<notin> fst ` set acc"
      and rest: "fst ` set src \<inter> fst ` set (setProperty k v acc) = {}"
      by (auto simp add: keys_setProperty)
    show ?case
      unfolding p spread_Cons Cons.IH(3) [OF d rest] named_setProperty_fresh [OF fresh]
      by simp
  }
qed

lemma filter_named_id:
  "\<forall>k\<in>fst ` set ps. arrayIndex k = None \<Longrightarrow>
   filter (\<lambda>q. arrayIndex (fst q) = None) ps = ps"
  by (induction ps) auto

lemma spread_named:
  assumes "distinct (map fst src)" and "fst ` set src \<inter> fst ` set acc = {}"
    and "\<forall>k\<in>fst ` set acc \<union> fst ` set src. arrayIndex k = None"
  shows "spread acc src = acc @ src"
proof -
  from assms(3) have "\<forall>k\<in>fst ` set (spread acc src). arrayIndex k = None"
    unfolding keys_spread .
  then have "spread acc src = filter (\<lambda>q. arrayIndex (fst q) = None) (spread acc src)"
    by (simp add: filter_named_id)
  also have "\<dots> = filter (\<lambda>q. arrayIndex (fst q) = None) acc
                    @ filter (\<lambda>q. arrayIndex (fst q) = None) src"
    using assms(1,2) by (rule spread_fresh(3))
  also have "\<dots> = acc @ src"
    using assms(3) by (simp add: filter_named_id)
  finally show ?thesis .
qed

lemma arrayIndex_name: "arrayIndex ''name'' = None"
  by (simp add: arrayIndex_def)

lemma inputRecord_fields:
  assumes "distinct (map fst metadata)" and "''name'' \<notin> fst ` set metadata"
  shows "\<exists>rs. inputRecord (name, JObject metadata) = JObject rs
           \<and> map_of rs = (map_of metadata)(''name'' \<mapsto> JString name)
           \<and> length rs = Suc (length metadata)
           \<and> sorted (map (propertyRank \<circ> fst) rs)
           \<and> filter (\<lambda>q. arrayIndex (fst q) = None) rs
               = (''name'', JString name) # filter (\<lambda>q. arrayIndex (fst q) = None) metadata
           \<and> ((\<forall>k\<in>fst ` set metadata. arrayIndex k = None) \<longrightarrow>
                 rs = (''name'', JString name) # metadata)"
proof -
  let ?rs = "spread [(''name'', JString name)] metadata"
  from assms(2) have disjoint: "fst ` set metadata \<inter> fst ` set [(''name'', JString name)] = {}"
    by simp
  from assms(2) have absent: "map_of metadata ''name'' = None"
    by (simp add: map_of_eq_None_iff)
  have "map_of ?rs = map_of [(''name'', JString name)] ++ map_of metadata"
    using assms(1) by (rule map_of_spread)
  also have "\<dots> = (map_of metadata)(''name'' \<mapsto> JString name)"
    using absent by (auto simp add: map_add_def fun_eq_iff split: option.splits)
  finally have fields: "map_of ?rs = (map_of metadata)(''name'' \<mapsto> JString name)" .
  have len: "length ?rs = Suc (length metadata)"
    using spread_fresh(2) [OF assms(1) disjoint] by simp
  have ord: "sorted (map (propertyRank \<circ> fst) ?rs)"
    by (rule sorted_spread) simp
  have named: "filter (\<lambda>q. arrayIndex (fst q) = None) ?rs
      = (''name'', JString name) # filter (\<lambda>q. arrayIndex (fst q) = None) metadata"
    using spread_fresh(3) [OF assms(1) disjoint] by (simp add: arrayIndex_name)
  have plain: "?rs = (''name'', JString name) # metadata"
    if "\<forall>k\<in>fst ` set metadata. arrayIndex k = None"
    using spread_named [OF assms(1) disjoint] that by (simp add: arrayIndex_name)
  from fields len ord named plain show ?thesis by simp
qed

lemma inputRecord_no_fields:
  "(\<forall>metadata. meta \<noteq> JObject metadata) \<Longrightarrow>
   inputRecord (name, meta) = JObject [(''name'', JString name)]"
  by (cases meta) simp_all

lemma storeMappingPairs_entries:
  assumes "distinct (map fst declared)"
  shows "set (storeMappingPairs declared) = set declared"
    and "length (storeMappingPairs declared) = length declared"
    and "sorted (map (propertyRank \<circ> fst) (storeMappingPairs declared))"
    and "filter (\<lambda>q. arrayIndex (fst q) = None) (storeMappingPairs declared)
           = filter (\<lambda>q. arrayIndex (fst q) = None) declared"
    and "(\<forall>k\<in>fst ` set declared. arrayIndex k = None) \<longrightarrow> storeMappingPairs declared = declared"
proof -
  have disjoint: "fst ` set declared \<inter> fst ` set ([] :: (string \<times> jsvalue) list) = {}"
    by simp
  show "set (storeMappingPairs declared) = set declared"
    using spread_fresh(1) [OF assms disjoint] by (simp add: storeMappingPairs_def)
  show "length (storeMappingPairs declared) = length declared"
    using spread_fresh(2) [OF assms disjoint] by (simp add: storeMappingPairs_def)
  show "sorted (map (propertyRank \<circ> fst) (storeMappingPairs declared))"
    unfolding storeMappingPairs_def by (rule sorted_spread) simp
  show "filter (\<lambda>q. arrayIndex (fst q) = None) (storeMappingPairs declared)
           = filter (\<lambda>q. arrayIndex (fst q) = None) declared"
    using spread_fresh(3) [OF assms disjoint] by (simp add: storeMappingPairs_def)
  show "(\<forall>k\<in>fst ` set declared. arrayIndex k = None) \<longrightarrow> storeMappingPairs declared = declared"
    using spread_named [OF assms disjoint] by (simp add: storeMappingPairs_def)
qed


lemma getWorkflowDispatchInputs_parsed:
  assumes "getWorkflowYaml e owner repo wid = (Inr fetched, reqs)"
    and "yaml_load e (yaml fetched) = Inr doc"
    and "findDispatchInputs doc = Inr inputs"
  shows "getWorkflowDispatchInputs e owner repo wid =
     ((if \<not> truthy inputs then
         Inr (JObject [(''error'', JString ''No workflow_dispatch inputs found in workflow YAML.'')])
       else (case Object_entries inputs of
               Inl x \<Rightarrow> Inl x
             | Inr entries \<Rightarrow> Inr (JObject [(''inputs'', JArray (map inputRecord entries))]))),
      reqs)"
  using assms by (simp add: getWorkflowDispatchInputs_def)

text \<open>
  Once the YAML has been fetched the function returns, whatever the text and whatever
  the document: the reads are guarded, and \<^verbatim>\<open>Object.entries\<close> is applied to a truthy
  value only.
\<close>

lemma Object_entries_truthy: "truthy v \<Longrightarrow> \<exists>entries. Object_entries v = Inr entries"
  by (cases v) simp_all

lemma getWorkflowDispatchInputs_returns:
  assumes "getWorkflowYaml e owner repo wid = (Inr fetched, reqs)"
  shows "\<exists>result. getWorkflowDispatchInputs e owner repo wid = (Inr result, reqs)"
proof (cases "yaml_load e (yaml fetched)")
  case (Inl details)
  with assms show ?thesis by (simp add: getWorkflowDispatchInputs_def)
next
  case (Inr doc)
  obtain inputs where i: "findDispatchInputs doc = Inr inputs"
    using findDispatchInputs_total [of doc] by blast
  show ?thesis
  proof (cases "truthy inputs")
    case True
    then obtain entries where "Object_entries inputs = Inr entries"
      using Object_entries_truthy by blast
    with True show ?thesis
      unfolding getWorkflowDispatchInputs_parsed [OF assms Inr i] by simp
  next
    case False
    then show ?thesis
      unfolding getWorkflowDispatchInputs_parsed [OF assms Inr i] by simp
  qed
qed

text \<open>
  Claim C5, as the code has it. Let the YAML parse, and let the document declare under
  \<^verbatim>\<open>on.workflow_dispatch.inputs\<close> the inputs \<open>declared\<close>, a sequence of pairs of a
  name and its metadata in the order of the source, no name twice. Then the function
  returns \<^verbatim>\<open>{ inputs: [...] }\<close> with one record per declared input, in the order in
  which the parsed object lists its properties:

  \<^item> the inputs listed are the declared ones, each once;

  \<^item> inputs whose names are array indices come first, in ascending numeric order, and
    the other inputs follow in the order of the source;

  \<^item> so when no name is an array index, the records are in the order of the source.

  The record of an input whose metadata is a mapping without a field \<^verbatim>\<open>name\<close> has
  the field \<^verbatim>\<open>name\<close> with the input's name and every field of the metadata with its
  value unchanged, and no other field; fields whose names are array indices are listed
  first, then \<^verbatim>\<open>name\<close>, then the other fields in their order, so that the record is
  \<^verbatim>\<open>name\<close> followed by the metadata when no field name is an array index. An input
  whose metadata is not a mapping gives the record \<^verbatim>\<open>{ name }\<close>. Nothing is said here
  of metadata that has a field \<^verbatim>\<open>name\<close> of its own.
\<close>

theorem dispatch_inputs_extracted:
  assumes "getWorkflowYaml e owner repo wid = (Inr fetched, reqs)"
    and "yaml_load e (yaml fetched) = Inr doc"
    and "lookupPath doc [''on'', ''workflow_dispatch'', ''inputs'']
           = Some (JObject (storeMappingPairs declared))"
    and "distinct (map fst declared)"
  shows "getWorkflowDispatchInputs e owner repo wid =
           (Inr (JObject [(''inputs'', JArray (map inputRecord (storeMappingPairs declared)))]),
            reqs)
         \<and> length (map inputRecord (storeMappingPairs declared)) = length declared
         \<and> set (storeMappingPairs declared) = set declared
         \<and> sorted (map (propertyRank \<circ> fst) (storeMappingPairs declared))
         \<and> filter (\<lambda>q. arrayIndex (fst q) = None) (storeMappingPairs declared)
             = filter (\<lambda>q. arrayIndex (fst q) = None) declared
         \<and> ((\<forall>k\<in>fst ` set declared. arrayIndex k = None) \<longrightarrow>
               storeMappingPairs declared = declared)
         \<and> (\<forall>name metadata.
               distinct (map fst metadata) \<and> ''name'' \<notin> fst ` set metadata \<longrightarrow>
               (\<exists>rs. inputRecord (name, JObject metadata) = JObject rs
                  \<and> map_of rs = (map_of metadata)(''name'' \<mapsto> JString name)
                  \<and> length rs = Suc (length metadata)
                  \<and> sorted (map (propertyRank \<circ> fst) rs)
                  \<and> filter (\<lambda>q. arrayIndex (fst q) = None) rs
                      = (''name'', JString name)
                          # filter (\<lambda>q. arrayIndex (fst q) = None) metadata
                  \<and> ((\<forall>k\<in>fst ` set metadata. arrayIndex k = None) \<longrightarrow>
                        rs = (''name'', JString name) # metadata)))
         \<and> (\<forall>name meta. (\<forall>metadata. meta \<noteq> JObject metadata) \<longrightarrow>
               inputRecord (name, meta) = JObject [(''name'', JString name)])"
proof -
  have "findDispatchInputs doc = Inr (JObject (storeMappingPairs declared))"
    using findDispatchInputs_present [OF assms(3)] by simp
  from getWorkflowDispatchInputs_parsed [OF assms(1) assms(2) this]
  have result: "getWorkflowDispatchInputs e owner repo wid =
           (Inr (JObject [(''inputs'', JArray (map inputRecord (storeMappingPairs declared)))]),
            reqs)"
    by simp
  have records: "\<forall>name metadata.
               distinct (map fst metadata) \<and> ''name'' \<notin> fst ` set metadata \<longrightarrow>
               (\<exists>rs. inputRecord (name, JObject metadata) = JObject rs
                  \<and> map_of rs = (map_of metadata)(''name'' \<mapsto> JString name)
                  \<and> length rs = Suc (length metadata)
                  \<and> sorted (map (propertyRank \<circ> fst) rs)
                  \<and> filter (\<lambda>q. arrayIndex (fst q) = None) rs
                      = (''name'', JString name)
                          # filter (\<lambda>q. arrayIndex (fst q) = None) metadata
                  \<and> ((\<forall>k\<in>fst ` set metadata. arrayIndex k = None) \<longrightarrow>
                        rs = (''name'', JString name) # metadata))"
    using inputRecord_fields by blast
  have bare: "\<forall>name meta. (\<forall>metadata. meta \<noteq> JObject metadata) \<longrightarrow>
               inputRecord (name, meta) = JObject [(''name'', JString name)]"
    using inputRecord_no_fields by blast
  have count: "length (map inputRecord (storeMappingPairs declared)) = length declared"
    using storeMappingPairs_entries(2) [OF assms(4)] by simp
  note order = storeMappingPairs_entries(1,3,4,5) [OF assms(4)]
  show ?thesis
    by (intro conjI; fact result count order records bare)
qed

text \<open>
  Claim C6. When the YAML parses and the document has no inputs under
  \<^verbatim>\<open>on.workflow_dispatch.inputs\<close> (the path is missing, or what stands there is
  falsy, as the \<^verbatim>\<open>null\<close> of an empty \<^verbatim>\<open>inputs:\<close>), the function returns (it does
  not throw) \<^verbatim>\<open>{error: "No workflow_dispatch inputs found in workflow YAML."}\<close>,
  which differs from every result of a parse failure.
\<close>

theorem no_dispatch_inputs:
  assumes "getWorkflowYaml e owner repo wid = (Inr fetched, reqs)"
    and "yaml_load e (yaml fetched) = Inr doc"
    and "\<forall>v. lookupPath doc [''on'', ''workflow_dispatch'', ''inputs''] = Some v \<longrightarrow> \<not> truthy v"
  shows "getWorkflowDispatchInputs e owner repo wid =
           (Inr (JObject [(''error'',
                           JString ''No workflow_dispatch inputs found in workflow YAML.'')]),
            reqs)
         \<and> JObject [(''error'', JString ''No workflow_dispatch inputs found in workflow YAML.'')]
             \<noteq> JObject [(''error'', JString ''Failed to parse workflow YAML''),
                         (''details'', JString details)]"
proof -
  have "findDispatchInputs doc = Inr JUndefined"
  proof (cases "lookupPath doc [''on'', ''workflow_dispatch'', ''inputs'']")
    case None
    then show ?thesis by (rule findDispatchInputs_absent)
  next
    case (Some v)
    with assms(3) have "\<not> truthy v" by simp
    with findDispatchInputs_present [OF Some] show ?thesis by simp
  qed
  from getWorkflowDispatchInputs_parsed [OF assms(1) assms(2) this]
  show ?thesis by simp
qed

text \<open>
  Claim C7. When \<^verbatim>\<open>yaml.load\<close> throws on the text that was fetched, the function
  returns \<^verbatim>\<open>{error: "Failed to parse workflow YAML", details: String(e)}\<close>; the
  exception is not propagated.
\<close>

theorem yaml_parse_failure:
  assumes "getWorkflowYaml e owner repo wid = (Inr fetched, reqs)"
    and "yaml_load e (yaml fetched) = Inl details"
  shows "getWorkflowDispatchInputs e owner repo wid =
           (Inr (JObject [(''error'', JString ''Failed to parse workflow YAML''),
                          (''details'', JString details)]),
            reqs)"
  using assms by (simp add: getWorkflowDispatchInputs_def)

lemma getWorkflowYaml_example:
  "getWorkflowYaml (exampleEnv text parsed) ''octocat'' ''hello-world'' ''deploy.yml'' =
     (Inr \<lparr>yaml = text\<rparr>,
      [\<lparr>url = plainUrl ''https://api.github.com/repos/octocat/hello-world/contents/.github%2Fworkflows%2Fdeploy.yml'',
        httpMethod = None,
        headers = [(''Accept'', ''application/vnd.github.v3.raw'')],
        body = None\<rparr>])"
  by (simp add: getWorkflowYaml_def validated_def await_githubRequest_def exampleEnv_simps
        validate_octocat validate_hello_world repos_def encodeURIComponent_def
        unreservedChar_def percentEncode_def)

text \<open>
  The document of the claim, and a document with four inputs declared in the order
  \<^verbatim>\<open>environment\<close>, \<^verbatim>\<open>10\<close>, \<^verbatim>\<open>log_level\<close>, \<^verbatim>\<open>9\<close>, the third without metadata and
  the last with a field called \<^verbatim>\<open>1\<close>.
\<close>

theorem dispatch_inputs_extracted_witness:
  "getWorkflowDispatchInputs
     (exampleEnv
        (''on: {workflow_dispatch: {inputs: {environment: ''
           @ ''{description: env, required: true, default: prod}}}}'')
        (Inr (workflowDocument
           (storeMappingPairs
              [(''environment'',
                JObject [(''description'', JString ''env''), (''required'', JBool True),
                         (''default'', JString ''prod'')])]))))
     ''octocat'' ''hello-world'' ''deploy.yml'' =
   (Inr (JObject
      [(''inputs'',
        JArray [JObject [(''name'', JString ''environment''), (''description'', JString ''env''),
                         (''required'', JBool True), (''default'', JString ''prod'')]])]),
    [\<lparr>url = plainUrl (''https://api.github.com/repos/octocat/hello-world/contents/''
                        @ ''.github%2Fworkflows%2Fdeploy.yml''),
      httpMethod = None,
      headers = [(''Accept'', ''application/vnd.github.v3.raw'')],
      body = None\<rparr>])
   \<and> getWorkflowDispatchInputs
     (exampleEnv
        (''on: {workflow_dispatch: {inputs: {environment: {description: env, required: true}, ''
           @ ''10: {description: ten}, log_level: null, 9: {description: nine, 1: one}}}}'')
        (Inr (workflowDocument
           (storeMappingPairs
              [(''environment'',
                JObject [(''description'', JString ''env''), (''required'', JBool True)]),
               (''10'', JObject [(''description'', JString ''ten'')]),
               (''log_level'', JNull),
               (''9'', JObject [(''1'', JString ''one''), (''description'', JString ''nine'')])]))))
     ''octocat'' ''hello-world'' ''deploy.yml'' =
   (Inr (JObject
      [(''inputs'',
        JArray [JObject [(''1'', JString ''one''), (''name'', JString ''9''),
                         (''description'', JString ''nine'')],
                JObject [(''name'', JString ''10''), (''description'', JString ''ten'')],
                JObject [(''name'', JString ''environment''), (''description'', JString ''env''),
                         (''required'', JBool True)],
                JObject [(''name'', JString ''log_level'')]])]),
    [\<lparr>url = plainUrl (''https://api.github.com/repos/octocat/hello-world/contents/''
                        @ ''.github%2Fworkflows%2Fdeploy.yml''),
      httpMethod = None,
      headers = [(''Accept'', ''application/vnd.github.v3.raw'')],
      body = None\<rparr>])"
proof -
  let ?text = "''on: {workflow_dispatch: {inputs: {environment: ''
           @ ''{description: env, required: true, default: prod}}}}''"
  let ?declared = "[(''environment'',
             JObject [(''description'', JString ''env''), (''required'', JBool True),
                      (''default'', JString ''prod'')])]"
  let ?e = "exampleEnv ?text (Inr (workflowDocument (storeMappingPairs ?declared)))"
  let ?text' =
    "''on: {workflow_dispatch: {inputs: {environment: {description: env, required: true}, ''
           @ ''10: {description: ten}, log_level: null, 9: {description: nine, 1: one}}}}''"
  let ?declared' = "[(''environment'',
                JObject [(''description'', JString ''env''), (''required'', JBool True)]),
               (''10'', JObject [(''description'', JString ''ten'')]),
               (''log_level'', JNull),
               (''9'', JObject [(''1'', JString ''one''), (''description'', JString ''nine'')])]"
  let ?e' = "exampleEnv ?text' (Inr (workflowDocument (storeMappingPairs ?declared')))"
  have h2: "yaml_load ?e (yaml \<lparr>yaml = ?text\<rparr>)
      = Inr (workflowDocument (storeMappingPairs ?declared))"
    by (simp add: exampleEnv_simps)
  have h3: "lookupPath (workflowDocument (storeMappingPairs ?declared))
        [''on'', ''workflow_dispatch'', ''inputs'']
      = Some (JObject (storeMappingPairs ?declared))"
    by (simp add: workflowDocument_def)
  have h4: "distinct (map fst ?declared)"
    by simp
  have h2': "yaml_load ?e' (yaml \<lparr>yaml = ?text'\<rparr>)
      = Inr (workflowDocument (storeMappingPairs ?declared'))"
    by (simp add: exampleEnv_simps)
  have h3': "lookupPath (workflowDocument (storeMappingPairs ?declared'))
        [''on'', ''workflow_dispatch'', ''inputs'']
      = Some (JObject (storeMappingPairs ?declared'))"
    by (simp add: workflowDocument_def)
  have h4': "distinct (map fst ?declared')"
    by simp
  from dispatch_inputs_extracted [OF getWorkflowYaml_example h2 h3 h4, THEN conjunct1]
    dispatch_inputs_extracted [OF getWorkflowYaml_example h2' h3' h4', THEN conjunct1]
  show ?thesis
    by (simp add: storeMappingPairs_def spread_def setProperty_def propertyRank_def
          arrayIndex_def decimalValue_def digitValue_def)
qed

text \<open>
  Claim C5 as stated, one record per declared input in source order, fails when a name
  is an array index. The document
  \<^verbatim>\<open>on: {workflow_dispatch: {inputs: {environment: {description: env}, 2:
  {description: two}}}}\<close> declares \<^verbatim>\<open>environment\<close> and then \<^verbatim>\<open>2\<close>; the parsed
  object lists \<^verbatim>\<open>2\<close> first, and so does the result, which is not the sequence of
  records in source order.
\<close>

theorem dispatch_inputs_not_in_source_order:
  "getWorkflowDispatchInputs
     (exampleEnv
        (''on: {workflow_dispatch: {inputs: {environment: {description: env}, ''
           @ ''2: {description: two}}}}'')
        (Inr (workflowDocument
           (storeMappingPairs
              [(''environment'', JObject [(''description'', JString ''env'')]),
               (''2'', JObject [(''description'', JString ''two'')])]))))
     ''octocat'' ''hello-world'' ''deploy.yml'' =
   (Inr (JObject
      [(''inputs'',
        JArray [JObject [(''name'', JString ''2''), (''description'', JString ''two'')],
                JObject [(''name'', JString ''environment''),
                         (''description'', JString ''env'')]])]),
    [\<lparr>url = plainUrl (''https://api.github.com/repos/octocat/hello-world/contents/''
                        @ ''.github%2Fworkflows%2Fdeploy.yml''),
      httpMethod = None,
      headers = [(''Accept'', ''application/vnd.github.v3.raw'')],
      body = None\<rparr>])
   \<and> fst (getWorkflowDispatchInputs
     (exampleEnv
        (''on: {workflow_dispatch: {inputs: {environment: {description: env}, ''
           @ ''2: {description: two}}}}'')
        (Inr (workflowDocument
           (storeMappingPairs
              [(''environment'', JObject [(''description'', JString ''env'')]),
               (''2'', JObject [(''description'', JString ''two'')])]))))
     ''octocat'' ''hello-world'' ''deploy.yml'') \<noteq>
   Inr (JObject
      [(''inputs'',
        JArray [JObject [(''name'', JString ''environment''),
                         (''description'', JString ''env'')],
                JObject [(''name'', JString ''2''), (''description'', JString ''two'')]])])"
  by (simp add: getWorkflowDispatchInputs_def getWorkflowYaml_example exampleEnv_simps
        workflowDocument_def findDispatchInputs_def hasDispatchInputs_def jsAnd_def
        storeMappingPairs_def spread_def setProperty_def propertyRank_def
        arrayIndex_def decimalValue_def digitValue_def)

text \<open>
  Metadata with a field \<^verbatim>\<open>name\<close> of its own is not covered by the theorem above. In
  \<^verbatim>\<open>{ name, ...meta }\<close> the spread comes second and replaces the value, so for
  \<^verbatim>\<open>inputs: {environment: {name: Deployment target, description: env}}\<close> the record
  is \<^verbatim>\<open>{name: "Deployment target", description: "env"}\<close> and the input's name is
  lost, while the README of the tool promises records ``each with \<^verbatim>\<open>name\<close>,
  \<^verbatim>\<open>description\<close>, \<^verbatim>\<open>required\<close>, \<^verbatim>\<open>default\<close>''.
\<close>

lemma metadata_name_replaces_input_name:
  "inputRecord (''environment'',
      JObject [(''name'', JString ''Deployment target''), (''description'', JString ''env'')])
   = JObject [(''name'', JString ''Deployment target''), (''description'', JString ''env'')]"
  by (simp add: spread_def setProperty_def arrayIndex_def)

theorem no_dispatch_inputs_witness:
  "getWorkflowDispatchInputs
     (exampleEnv ''<workflow>'' (Inr (JObject [(''on'', JObject [(''push'', JNull)])])))
     ''octocat'' ''hello-world'' ''deploy.yml'' =
   (Inr (JObject [(''error'', JString ''No workflow_dispatch inputs found in workflow YAML.'')]),
    [\<lparr>url = plainUrl ''https://api.github.com/repos/octocat/hello-world/contents/.github%2Fworkflows%2Fdeploy.yml'',
      httpMethod = None,
      headers = [(''Accept'', ''application/vnd.github.v3.raw'')],
      body = None\<rparr>])
   \<and> getWorkflowDispatchInputs
     (exampleEnv ''<workflow>'' (Inr (JObject [(''on'', JObject [(''workflow_dispatch'', JNull)])])))
     ''octocat'' ''hello-world'' ''deploy.yml'' =
   (Inr (JObject [(''error'', JString ''No workflow_dispatch inputs found in workflow YAML.'')]),
    [\<lparr>url = plainUrl ''https://api.github.com/repos/octocat/hello-world/contents/.github%2Fworkflows%2Fdeploy.yml'',
      httpMethod = None,
      headers = [(''Accept'', ''application/vnd.github.v3.raw'')],
      body = None\<rparr>])"
proof -
  let ?doc = "JObject [(''on'', JObject [(''push'', JNull)])]"
  let ?doc' = "JObject [(''on'', JObject [(''workflow_dispatch'', JNull)])]"
  have h2: "yaml_load (exampleEnv ''<workflow>'' (Inr ?doc)) (yaml \<lparr>yaml = ''<workflow>''\<rparr>)
      = Inr ?doc"
    by (simp add: exampleEnv_simps)
  have h3: "\<forall>v. lookupPath ?doc [''on'', ''workflow_dispatch'', ''inputs''] = Some v
      \<longrightarrow> \<not> truthy v"
    by simp
  have h2': "yaml_load (exampleEnv ''<workflow>'' (Inr ?doc')) (yaml \<lparr>yaml = ''<workflow>''\<rparr>)
      = Inr ?doc'"
    by (simp add: exampleEnv_simps)
  have h3': "\<forall>v. lookupPath ?doc' [''on'', ''workflow_dispatch'', ''inputs''] = Some v
      \<longrightarrow> \<not> truthy v"
    by simp
  from no_dispatch_inputs [OF getWorkflowYaml_example h2 h3]
       no_dispatch_inputs [OF getWorkflowYaml_example h2' h3']
  show ?thesis by simp
qed

theorem yaml_parse_failure_witness:
  "getWorkflowDispatchInputs
     (exampleEnv ''on: [unclosed'' (Inl ''YAMLException: unexpected end of the stream''))
     ''octocat'' ''hello-world'' ''deploy.yml'' =
   (Inr (JObject [(''error'', JString ''Failed to parse workflow YAML''),
                  (''details'', JString ''YAMLException: unexpected end of the stream'')]),
    [\<lparr>url = plainUrl ''https://api.github.com/repos/octocat/hello-world/contents/.github%2Fworkflows%2Fdeploy.yml'',
      httpMethod = None,
      headers = [(''Accept'', ''application/vnd.github.v3.raw'')],
      body = None\<rparr>])"
proof -
  let ?e = "exampleEnv ''on: [unclosed'' (Inl ''YAMLException: unexpected end of the stream'')"
  have h2: "yaml_load ?e (yaml \<lparr>yaml = ''on: [unclosed''\<rparr>)
      = Inl ''YAMLException: unexpected end of the stream''"
    by (simp add: exampleEnv_simps)
  from yaml_parse_failure [OF getWorkflowYaml_example h2]
  show ?thesis by simp
qed

section \<open>The token at start-up\<close>

lemma cliToken_None_iff:
  "cliToken argv = None \<longleftrightarrow> (\<forall>arg \<in> set argv. \<not> prefix ''--token='' arg)"
  by (induction argv) simp_all

lemma cliToken_first:
  "cliToken argv = Some t \<Longrightarrow>
   \<exists>before after. argv = before @ (''--token='' @ t) # after
      \<and> (\<forall>arg \<in> set before. \<not> prefix ''--token='' arg)"
proof (induction argv)
  case Nil
  then show ?case by simp
next
  case (Cons arg argv)
  show ?case
  proof (cases "prefix ''--token='' arg")
    case True
    with Cons.prems have t: "t = drop (length ''--token='') arg" by simp
    from True obtain rest where "arg = ''--token='' @ rest" by (auto simp add: prefix_def)
    with t have "arg = ''--token='' @ t" by simp
    then have "arg # argv = [] @ (''--token='' @ t) # argv \<and> (\<forall>a \<in> set []. \<not> prefix ''--token='' a)"
      by simp
    then show ?thesis by blast
  next
    case False
    with Cons.prems have "cliToken argv = Some t" by simp
    with Cons.IH obtain before after where
      "argv = before @ (''--token='' @ t) # after" "\<forall>a \<in> set before. \<not> prefix ''--token='' a"
      by blast
    with False have "arg # argv = (arg # before) @ (''--token='' @ t) # after
        \<and> (\<forall>a \<in> set (arg # before). \<not> prefix ''--token='' a)"
      by simp
    then show ?thesis by blast
  qed
qed

text \<open>
  Claim C8, as the code has it. The command-line token is the rest of the first
  argument that starts with \<^verbatim>\<open>--token=\<close>. If it is not empty the server starts with
  it, whatever the environment holds. If there is no such argument, or the first one
  has an empty value, the environment variable is used; if that is unset or empty the
  process exits with code 1, and no tool call is answered.
\<close>

theorem token_resolution:
  "(cliToken argv = None \<longleftrightarrow> (\<forall>arg \<in> set argv. \<not> prefix ''--token='' arg))
   \<and> (cliToken argv = Some t \<longrightarrow>
        (\<exists>before after. argv = before @ (''--token='' @ t) # after
           \<and> (\<forall>arg \<in> set before. \<not> prefix ''--token='' arg)))
   \<and> (cliToken argv = Some t \<and> t \<noteq> [] \<longrightarrow> fst (startup argv envToken) = Serving t)
   \<and> (cliToken argv = None \<or> cliToken argv = Some [] \<longrightarrow>
        fst (startup argv envToken) =
          (case envToken of
             None \<Rightarrow> Exit 1
           | Some t' \<Rightarrow> if t' = [] then Exit 1 else Serving t'))
   \<and> (\<forall>c. fst (startup argv envToken) = Exit c \<longrightarrow>
        c = 1 \<and> serverProcess e argv envToken calls = (Exit 1, []))"
proof -
  have a: "cliToken argv = Some t \<and> t \<noteq> [] \<longrightarrow> fst (startup argv envToken) = Serving t"
    by (simp add: startup_def GITHUB_TOKEN_def)
  have b: "cliToken argv = None \<or> cliToken argv = Some [] \<longrightarrow>
        fst (startup argv envToken) =
          (case envToken of
             None \<Rightarrow> Exit 1
           | Some t' \<Rightarrow> if t' = [] then Exit 1 else Serving t')"
    by (auto simp add: startup_def GITHUB_TOKEN_def split: option.splits)
  have c: "\<forall>c. fst (startup argv envToken) = Exit c \<longrightarrow>
        c = 1 \<and> serverProcess e argv envToken calls = (Exit 1, [])"
    by (auto simp add: serverProcess_def startup_def split: option.splits if_splits)
  from cliToken_None_iff [of argv] cliToken_first [of argv t] a b c
  show ?thesis by blast
qed

theorem token_resolution_witness:
  "startup [''node'', ''dist/index.js'', ''--token=ghp_fromFlag''] (Some ''ghp_fromEnvironment'')
     = (Serving ''ghp_fromFlag'',
        [''[MCP Server Log] GitHub token found.'', ''[MCP Server Log] Octokit initialized.''])
   \<and> startup [''node'', ''dist/index.js''] (Some ''ghp_fromEnvironment'')
     = (Serving ''ghp_fromEnvironment'',
        [''[MCP Server Log] GitHub token found.'', ''[MCP Server Log] Octokit initialized.''])
   \<and> startup [''node'', ''dist/index.js''] None
     = (Exit 1, [''FATAL: GITHUB_PERSONAL_ACCESS_TOKEN environment variable is not set.''])
   \<and> serverProcess (exampleEnv [] (Inr JNull)) [''node'', ''dist/index.js''] None
        [cancel_workflow_run ''octocat'' ''hello-world'' 42]
     = (Exit 1, [])"
  using token_resolution [of "[''node'', ''dist/index.js'', ''--token=ghp_fromFlag'']"
          "''ghp_fromFlag''" "Some ''ghp_fromEnvironment''"]
        token_resolution [of "[''node'', ''dist/index.js'']" "[]" None
          "exampleEnv [] (Inr JNull)" "[cancel_workflow_run ''octocat'' ''hello-world'' 42]"]
  by (simp add: startup_def GITHUB_TOKEN_def serverProcess_def)

text \<open>
  Claim C8 as stated, that the environment variable is used only when the flag is
  absent, fails for the flag with an empty value: with the arguments
  \<^verbatim>\<open>node dist/index.js --token=\<close> the flag is present, and the server starts with the
  token of the environment.
\<close>

theorem empty_flag_falls_back_to_environment:
  "prefix ''--token='' ''--token=''
   \<and> ''--token='' \<in> set [''node'', ''dist/index.js'', ''--token='']
   \<and> startup [''node'', ''dist/index.js'', ''--token=''] (Some ''ghp_fromEnvironment'')
     = (Serving ''ghp_fromEnvironment'',
        [''[MCP Server Log] GitHub token found.'', ''[MCP Server Log] Octokit initialized.''])"
  by (simp add: startup_def GITHUB_TOKEN_def)

end
